theory Spec2Isabelle
  imports Complex_Main
begin

section \<open>Fitness Tracker: glucose chart, zoom window, classifier and weekly grid\<close>

text \<open>
  A shallow embedding of the application script of the Fitness Tracker single-page site.
  Timestamps are the integer milliseconds that \<^verbatim>\<open>Date.getTime()\<close> returns and are
  modelled as \<^typ>\<open>int\<close>. Glucose values are IEEE doubles in the script; they are modelled
  as exact rationals (\<^typ>\<open>rat\<close>), so the rounding error of double arithmetic is not part
  of the model, while division by zero (which yields an infinity or NaN in the script) is.
\<close>

subsection \<open>Sample aggregation (\<^verbatim>\<open>groupGlucoseReadings\<close>)\<close>

text \<open>An element of \<^verbatim>\<open>glucoseData\<close>: \<^verbatim>\<open>{ value, timestamp }\<close>.\<close>

record reading =
  r_value :: rat
  r_timestamp :: int

text \<open>
  An element of \<^verbatim>\<open>groupedGlucoseData\<close>. Its \<^verbatim>\<open>value\<close> is the string produced by
  \<^verbatim>\<open>avgValue.toFixed(0)\<close>, a decimal integer numeral; the model keeps the integer that
  the numeral denotes.
\<close>

record point =
  p_value :: int
  p_timestamp :: int

text \<open>
  \<^verbatim>\<open>Number.prototype.toFixed(0)\<close>: the sign is split off and the magnitude is rounded
  to the nearest integer, the larger one when two are equally near.
\<close>

definition toFixed0 :: "rat \<Rightarrow> int" where
  "toFixed0 x = (if x < 0 then - \<lfloor>- x + 1 / 2\<rfloor> else \<lfloor>x + 1 / 2\<rfloor>)"

text \<open>
  \<^verbatim>\<open>currentGroup.reduce((sum, r) => sum + r.value, 0) / currentGroup.length\<close>
\<close>

definition avgValue :: "reading list \<Rightarrow> rat" where
  "avgValue currentGroup =
     foldl (\<lambda>sum r. sum + r_value r) 0 currentGroup / of_nat (length currentGroup)"

text \<open>
  The object pushed onto \<^verbatim>\<open>grouped\<close> when a group is closed. The script reads
  \<^verbatim>\<open>currentGroup[0]\<close>; the group is never empty where this is evaluated.
\<close>

definition closeGroup :: "reading list \<Rightarrow> point" where
  "closeGroup currentGroup =
     \<lparr>p_value = toFixed0 (avgValue currentGroup),
      p_timestamp = r_timestamp (hd currentGroup)\<rparr>"

text \<open>
  The \<^verbatim>\<open>for\<close> loop over \<^verbatim>\<open>readings[1..]\<close> with its two mutable variables
  \<^verbatim>\<open>currentGroup\<close> and \<^verbatim>\<open>grouped\<close>, followed by the emission of the last group.
\<close>

fun groupLoop :: "int \<Rightarrow> reading list \<Rightarrow> reading list \<Rightarrow> point list \<Rightarrow> point list" where
  "groupLoop groupThresholdMs [] currentGroup grouped =
     (if length currentGroup > 0 then grouped @ [closeGroup currentGroup] else grouped)"
| "groupLoop groupThresholdMs (currentReading # rest) currentGroup grouped =
     (let firstReading = hd currentGroup;
          timeDiff = r_timestamp currentReading - r_timestamp firstReading
      in if timeDiff \<le> groupThresholdMs
         then groupLoop groupThresholdMs rest (currentGroup @ [currentReading]) grouped
         else groupLoop groupThresholdMs rest [currentReading]
                (grouped @ [closeGroup currentGroup]))"

definition groupGlucoseReadings :: "reading list \<Rightarrow> int \<Rightarrow> point list" where
  "groupGlucoseReadings readings groupThresholdMs =
     (case readings of
        [] \<Rightarrow> []
      | first # rest \<Rightarrow> groupLoop groupThresholdMs rest [first] [])"

text \<open>
  The specification's reading of the aggregator, for comparison: the input is cut from
  left to right into groups; a group is its first sample followed by the longest run of
  samples whose time is at most the threshold after the first sample's time; each group
  is replaced by the mean of its values, rounded for display, at its first sample's time.
\<close>

function spec_groups :: "int \<Rightarrow> reading list \<Rightarrow> reading list list" where
  "spec_groups T [] = []"
| "spec_groups T (r # rs) =
     (r # takeWhile (\<lambda>s. r_timestamp s - r_timestamp r \<le> T) rs)
       # spec_groups T (dropWhile (\<lambda>s. r_timestamp s - r_timestamp r \<le> T) rs)"
  by pat_completeness auto
termination
  by (relation "measure (\<lambda>(T, rs). length rs)") (auto simp: less_Suc_eq_le length_dropWhile_le)

definition spec_mean :: "reading list \<Rightarrow> rat" where
  "spec_mean g = sum_list (map r_value g) / of_nat (length g)"

fun spec_point :: "reading list \<Rightarrow> point" where
  "spec_point [] = \<lparr>p_value = 0, p_timestamp = 0\<rparr>"
| "spec_point (r # rs) =
     \<lparr>p_value = toFixed0 (spec_mean (r # rs)), p_timestamp = r_timestamp r\<rparr>"

subsection \<open>Event correlation (the \<^verbatim>\<open>scatterData\<close> mapping of \<^verbatim>\<open>updateChart\<close>)\<close>

text \<open>
  An element of \<^verbatim>\<open>otherEvents\<close>: an event whose type is not \<^verbatim>\<open>glucose_reading\<close>,
  with its timestamp already read as a local time.
\<close>

record event =
  e_type :: string
  e_desc :: string
  e_timestamp :: int

text \<open>
  The \<^verbatim>\<open>forEach\<close> over \<^verbatim>\<open>groupedGlucoseData\<close> with the two variables
  \<^verbatim>\<open>closestGlucose\<close> (initially \<^verbatim>\<open>null\<close>) and \<^verbatim>\<open>minDiff\<close> (initially
  \<^verbatim>\<open>Infinity\<close>, here \<open>None\<close>).
\<close>

fun closestLoop :: "int \<Rightarrow> point list \<Rightarrow> point option \<Rightarrow> int option \<Rightarrow> point option" where
  "closestLoop eventTimestamp [] closestGlucose minDiff = closestGlucose"
| "closestLoop eventTimestamp (glucose # rest) closestGlucose minDiff =
     (let diff = \<bar>p_timestamp glucose - eventTimestamp\<bar>
      in if (case minDiff of None \<Rightarrow> True | Some m \<Rightarrow> diff < m)
         then closestLoop eventTimestamp rest (Some glucose) (Some diff)
         else closestLoop eventTimestamp rest closestGlucose minDiff)"

definition closestGlucose :: "point list \<Rightarrow> int \<Rightarrow> point option" where
  "closestGlucose groupedGlucoseData eventTimestamp =
     closestLoop eventTimestamp groupedGlucoseData None None"

text \<open>\<^verbatim>\<open>closestGlucose ? closestGlucose.value : 40\<close>\<close>

definition yValue :: "point list \<Rightarrow> int \<Rightarrow> int" where
  "yValue groupedGlucoseData eventTimestamp =
     (case closestGlucose groupedGlucoseData eventTimestamp of
        Some glucose \<Rightarrow> p_value glucose
      | None \<Rightarrow> 40)"

record scatter =
  s_x :: int
  s_y :: int
  s_event :: event

definition scatterPoint :: "point list \<Rightarrow> event \<Rightarrow> scatter" where
  "scatterPoint groupedGlucoseData ev =
     \<lparr>s_x = e_timestamp ev,
      s_y = yValue groupedGlucoseData (e_timestamp ev),
      s_event = ev\<rparr>"

definition scatterData :: "event list \<Rightarrow> point list \<Rightarrow> int \<Rightarrow> int \<Rightarrow> scatter list" where
  "scatterData otherEvents groupedGlucoseData windowStart windowEnd =
     map (scatterPoint groupedGlucoseData)
       (filter (\<lambda>ev. e_timestamp ev \<ge> windowStart \<and> e_timestamp ev \<le> windowEnd)
          otherEvents)"

subsection \<open>Zoom window (\<^verbatim>\<open>setZoomLevel\<close>, \<^verbatim>\<open>moveZoomWindow\<close>, \<^verbatim>\<open>updateChart\<close>)\<close>

text \<open>
  A zoom level is the string \<^verbatim>\<open>'all'\<close> or a string such as \<^verbatim>\<open>'4h'\<close>, of which the
  script only uses \<^verbatim>\<open>parseInt(level)\<close>, the number of hours.
\<close>

datatype zoom = ZoomAll | ZoomHours nat

datatype direction = PanLeft | PanRight

text \<open>The reactive variables \<^verbatim>\<open>zoomLevel\<close>, \<^verbatim>\<open>zoomWindowStart\<close> and \<^verbatim>\<open>fullDataRange\<close>.\<close>

record zoom_state =
  zoomLevel :: zoom
  zoomWindowStart :: int
  fullDataRange_min :: int
  fullDataRange_max :: int

definition getZoomWindowSize :: "zoom_state \<Rightarrow> int" where
  "getZoomWindowSize st =
     (case zoomLevel st of
        ZoomAll \<Rightarrow> fullDataRange_max st - fullDataRange_min st
      | ZoomHours hours \<Rightarrow> int hours * 60 * 60 * 1000)"

text \<open>
  The assignments of \<^verbatim>\<open>setZoomLevel\<close>. Its last statement redraws the chart
  (\<^verbatim>\<open>updateChart\<close> below), which recomputes \<^verbatim>\<open>fullDataRange\<close> from the same events.
\<close>

definition setZoomLevel :: "zoom \<Rightarrow> zoom_state \<Rightarrow> zoom_state" where
  "setZoomLevel level st =
     (let st1 = st\<lparr>zoomLevel := level\<rparr>
      in case level of
           ZoomAll \<Rightarrow> st1\<lparr>zoomWindowStart := 0\<rparr>
         | ZoomHours hours \<Rightarrow>
             (let windowSize = int hours * 60 * 60 * 1000;
                  dataRange = fullDataRange_max st1 - fullDataRange_min st1
              in if dataRange \<le> windowSize
                 then st1\<lparr>zoomWindowStart := fullDataRange_min st1\<rparr>
                 else st1\<lparr>zoomWindowStart := fullDataRange_max st1 - windowSize\<rparr>))"

text \<open>
  \<^verbatim>\<open>moveZoomWindow\<close>. The step \<^verbatim>\<open>windowSize * 0.5\<close> is an integer, the window size
  being a multiple of 3600000.
\<close>

definition moveZoomWindow :: "direction \<Rightarrow> zoom_state \<Rightarrow> zoom_state" where
  "moveZoomWindow dir st =
     (if zoomLevel st = ZoomAll then st
      else let dataRange = fullDataRange_max st - fullDataRange_min st
           in if dataRange \<le> 0 then st
              else let windowSize = getZoomWindowSize st;
                       step = windowSize div 2
                   in if dir = PanLeft
                      then st\<lparr>zoomWindowStart :=
                             max (fullDataRange_min st) (zoomWindowStart st - step)\<rparr>
                      else st\<lparr>zoomWindowStart :=
                             min (fullDataRange_max st - windowSize) (zoomWindowStart st + step)\<rparr>)"

text \<open>
  The window of \<^verbatim>\<open>updateChart\<close>: \<^verbatim>\<open>windowStart\<close> and \<^verbatim>\<open>windowEnd\<close> as they stand
  after the two clamps, from the state (whose \<^verbatim>\<open>fullDataRange\<close> has just been stored)
  and the bounds of the data.
\<close>

definition zoomWindow :: "zoom_state \<Rightarrow> int \<Rightarrow> int \<Rightarrow> int \<times> int" where
  "zoomWindow st dataMinTimestamp dataMaxTimestamp =
     (let windowSize = getZoomWindowSize st;
          (windowStart0, windowEnd0) =
            (if zoomLevel st = ZoomAll then (dataMinTimestamp, dataMaxTimestamp)
             else let windowStart = zoomWindowStart st;
                      windowStart' =
                        (if windowStart = 0 \<or> windowStart < dataMinTimestamp
                         then max dataMinTimestamp (dataMaxTimestamp - windowSize)
                         else windowStart)
                  in (windowStart', windowStart' + windowSize));
          (windowStart1, windowEnd1) =
            (if windowEnd0 > dataMaxTimestamp
             then (dataMaxTimestamp - windowSize, dataMaxTimestamp)
             else (windowStart0, windowEnd0))
      in if windowStart1 < dataMinTimestamp
         then (dataMinTimestamp, dataMaxTimestamp)
         else (windowStart1, windowEnd1))"

text \<open>An element of \<^verbatim>\<open>glucoseDataPoints\<close>: \<^verbatim>\<open>{ x, y }\<close>.\<close>

record datapoint =
  d_x :: int
  d_y :: int

definition glucoseDataPoints :: "point list \<Rightarrow> datapoint list" where
  "glucoseDataPoints groupedGlucoseData =
     map (\<lambda>r. \<lparr>d_x = p_timestamp r, d_y = p_value r\<rparr>) groupedGlucoseData"

definition filteredGlucoseDataPoints :: "datapoint list \<Rightarrow> int \<Rightarrow> int \<Rightarrow> datapoint list" where
  "filteredGlucoseDataPoints points windowStart windowEnd =
     filter (\<lambda>point. d_x point \<ge> windowStart \<and> d_x point \<le> windowEnd) points"

definition displayDataPoints :: "datapoint list \<Rightarrow> int \<Rightarrow> int \<Rightarrow> datapoint list" where
  "displayDataPoints points windowStart windowEnd =
     (let filtered = filteredGlucoseDataPoints points windowStart windowEnd
      in if length filtered > 0 then filtered else points)"

text \<open>What \<^verbatim>\<open>updateChart\<close> hands to the chart.\<close>

record chart =
  c_windowStart :: int
  c_windowEnd :: int
  c_windowSize :: int
  c_minTimestamp :: int
  c_maxTimestamp :: int
  c_line :: "datapoint list"
  c_scatter :: "scatter list"

text \<open>
  \<^verbatim>\<open>updateChart\<close> from the aggregated points and the other events on: nothing is drawn
  and nothing stored when there is no aggregated point; otherwise the range of all
  timestamps is stored in \<^verbatim>\<open>fullDataRange\<close>, the window is resolved and the two
  datasets are filtered by it. \<^verbatim>\<open>Math.min(...allTimestamps)\<close> is \<open>Min\<close> of a list that
  is not empty here.
\<close>

definition updateChart :: "point list \<Rightarrow> event list \<Rightarrow> zoom_state \<Rightarrow> zoom_state \<times> chart option" where
  "updateChart groupedGlucoseData otherEvents st =
     (if length groupedGlucoseData = 0 then (st, None)
      else
        let allTimestamps = map p_timestamp groupedGlucoseData @ map e_timestamp otherEvents;
            dataMinTimestamp = Min (set allTimestamps);
            dataMaxTimestamp = Max (set allTimestamps);
            st' = st\<lparr>fullDataRange_min := dataMinTimestamp,
                      fullDataRange_max := dataMaxTimestamp\<rparr>;
            windowSize = getZoomWindowSize st';
            (windowStart, windowEnd) = zoomWindow st' dataMinTimestamp dataMaxTimestamp;
            padding = 2 * 60 * 1000
        in (st',
            Some \<lparr>c_windowStart = windowStart,
                  c_windowEnd = windowEnd,
                  c_windowSize = windowSize,
                  c_minTimestamp = windowStart - padding,
                  c_maxTimestamp = windowEnd + padding,
                  c_line = displayDataPoints (glucoseDataPoints groupedGlucoseData)
                             windowStart windowEnd,
                  c_scatter = scatterData otherEvents groupedGlucoseData
                                windowStart windowEnd\<rparr>))"

subsection \<open>Trend (\<^verbatim>\<open>currentTrend\<close>)\<close>

text \<open>
  The result of a division of two finite numbers in the script: a finite quotient, an
  infinity when a non-zero number is divided by zero, NaN for zero by zero. The divisor
  \<^verbatim>\<open>timeDiffMinutes\<close> is never a negative zero.
\<close>

datatype jsnum = NaN | NegInf | Fin rat | PosInf

definition js_div :: "rat \<Rightarrow> rat \<Rightarrow> jsnum" where
  "js_div a b =
     (if b = 0 then (if a = 0 then NaN else if a > 0 then PosInf else NegInf)
      else Fin (a / b))"

text \<open>The comparisons \<^verbatim>\<open>x > c\<close> and \<^verbatim>\<open>x >= c\<close> against a finite constant.\<close>

fun js_gt :: "jsnum \<Rightarrow> rat \<Rightarrow> bool" where
  "js_gt NaN c = False"
| "js_gt NegInf c = False"
| "js_gt (Fin x) c = (x > c)"
| "js_gt PosInf c = True"

fun js_ge :: "jsnum \<Rightarrow> rat \<Rightarrow> bool" where
  "js_ge NaN c = False"
| "js_ge NegInf c = False"
| "js_ge (Fin x) c = (x \<ge> c)"
| "js_ge PosInf c = True"

text \<open>The comparisons \<^verbatim>\<open>x < c\<close> and \<^verbatim>\<open>x <= c\<close>, used to state the bands.\<close>

fun js_lt :: "jsnum \<Rightarrow> rat \<Rightarrow> bool" where
  "js_lt NaN c = False"
| "js_lt NegInf c = True"
| "js_lt (Fin x) c = (x < c)"
| "js_lt PosInf c = False"

fun js_le :: "jsnum \<Rightarrow> rat \<Rightarrow> bool" where
  "js_le NaN c = False"
| "js_le NegInf c = True"
| "js_le (Fin x) c = (x \<le> c)"
| "js_le PosInf c = False"

text \<open>The five arrows of \<^verbatim>\<open>trendArrows\<close>, keyed 1 to 5.\<close>

datatype arrow = ArrowUp | ArrowUpRight | ArrowRight | ArrowDownRight | ArrowDown

definition trendArrows :: "nat \<Rightarrow> arrow option" where
  "trendArrows trend =
     (if trend = 1 then Some ArrowUp
      else if trend = 2 then Some ArrowUpRight
      else if trend = 3 then Some ArrowRight
      else if trend = 4 then Some ArrowDownRight
      else if trend = 5 then Some ArrowDown
      else None)"

definition ratePerMinute :: "reading list \<Rightarrow> jsnum" where
  "ratePerMinute readings =
     (let latestReading = readings ! (length readings - 1);
          oldestReading = readings ! 0;
          timeDiffMs = r_timestamp latestReading - r_timestamp oldestReading;
          timeDiffMinutes = of_int timeDiffMs / (60 * 1000);
          glucoseChange = r_value latestReading - r_value oldestReading
      in js_div glucoseChange timeDiffMinutes)"

definition trendLevel :: "jsnum \<Rightarrow> nat" where
  "trendLevel rate =
     (if js_gt rate 2 then 1
      else if js_gt rate 1 then 2
      else if js_ge rate (- 1) then 3
      else if js_ge rate (- 2) then 4
      else 5)"

definition currentTrend :: "reading list \<Rightarrow> arrow option" where
  "currentTrend readings =
     (if length readings = 0 then None
      else if length readings < 2 then None
      else trendArrows (trendLevel (ratePerMinute readings)))"

subsection \<open>Strings of the script\<close>

text \<open>
  A string of the script is a sequence of UTF-16 code units, and \<^verbatim>\<open>length\<close> counts
  them. The catalog has letters outside ASCII, so a string is a list of code units here;
  \<open>js\<close> embeds an ASCII literal.
\<close>

type_synonym jsstring = "nat list"

definition js :: "string \<Rightarrow> jsstring" where
  "js s = map of_char s"

text \<open>The class \<^verbatim>\<open>\s\<close> of a regular expression, which is also what \<^verbatim>\<open>trim\<close> removes.\<close>

definition isWhiteSpace :: "nat \<Rightarrow> bool" where
  "isWhiteSpace c =
     (c = 9 \<or> c = 10 \<or> c = 11 \<or> c = 12 \<or> c = 13 \<or> c = 32 \<or> c = 160 \<or> c = 5760
      \<or> (8192 \<le> c \<and> c \<le> 8202) \<or> c = 8232 \<or> c = 8233 \<or> c = 8239 \<or> c = 8287
      \<or> c = 12288 \<or> c = 65279)"

text \<open>The class \<^verbatim>\<open>\w\<close>: ASCII letters, digits and the underscore.\<close>

definition isWordChar :: "nat \<Rightarrow> bool" where
  "isWordChar c =
     ((48 \<le> c \<and> c \<le> 57) \<or> (65 \<le> c \<and> c \<le> 90) \<or> c = 95 \<or> (97 \<le> c \<and> c \<le> 122))"

text \<open>
  \<^verbatim>\<open>toLowerCase\<close> on the ASCII and Latin-1 letters; other code units are left as
  they are.
\<close>

definition lowerUnit :: "nat \<Rightarrow> nat" where
  "lowerUnit c =
     (if 65 \<le> c \<and> c \<le> 90 then c + 32
      else if 192 \<le> c \<and> c \<le> 222 \<and> c \<noteq> 215 then c + 32
      else c)"

definition toLowerCase :: "jsstring \<Rightarrow> jsstring" where
  "toLowerCase s = map lowerUnit s"

definition trimEnd :: "jsstring \<Rightarrow> jsstring" where
  "trimEnd s = rev (dropWhile isWhiteSpace (rev s))"

definition trim :: "jsstring \<Rightarrow> jsstring" where
  "trim s = trimEnd (dropWhile isWhiteSpace s)"

text \<open>\<^verbatim>\<open>s.includes(p)\<close>: \<open>p\<close> occurs in \<open>s\<close> as a contiguous piece.\<close>

fun startsWith :: "jsstring \<Rightarrow> jsstring \<Rightarrow> bool" where
  "startsWith s [] = True"
| "startsWith [] (p # ps) = False"
| "startsWith (c # s) (p # ps) = (c = p \<and> startsWith s ps)"

fun str_includes :: "jsstring \<Rightarrow> jsstring \<Rightarrow> bool" where
  "str_includes [] p = startsWith [] p"
| "str_includes (c # s) p = (startsWith (c # s) p \<or> str_includes s p)"

text \<open>\<^verbatim>\<open>parts.join(sep)\<close>\<close>

fun join :: "jsstring \<Rightarrow> jsstring list \<Rightarrow> jsstring" where
  "join sep [] = []"
| "join sep [x] = x"
| "join sep (x # y # ys) = x @ sep @ join sep (y # ys)"

text \<open>
  \<^verbatim>\<open>s.split('\n')\<close>, with the piece being read kept in reverse in the first argument.
\<close>

fun splitLines :: "jsstring \<Rightarrow> jsstring \<Rightarrow> jsstring list" where
  "splitLines cur [] = [rev cur]"
| "splitLines cur (c # s) =
     (if c = 10 then rev cur # splitLines [] s else splitLines (c # cur) s)"

text \<open>
  \<^verbatim>\<open>s.split(/\s+/)\<close>: the pieces between the maximal runs of white space.
\<close>

function splitSpaces :: "jsstring \<Rightarrow> jsstring \<Rightarrow> jsstring list" where
  "splitSpaces cur [] = [rev cur]"
| "splitSpaces cur (c # s) =
     (if isWhiteSpace c then rev cur # splitSpaces [] (dropWhile isWhiteSpace s)
      else splitSpaces (c # cur) s)"
  by pat_completeness auto
termination
  by (relation "measure (\<lambda>(cur, s). length s)") (auto simp: less_Suc_eq_le length_dropWhile_le)

text \<open>
  \<^verbatim>\<open>s.split(/\n\s*\n/)\<close>. At a line feed the separator matches when the white space
  that follows holds another line feed; being greedy it then runs up to the last line feed
  of that white space. The separator is never empty, so the empty text gives one empty block.
\<close>

definition separatorLength :: "jsstring \<Rightarrow> nat" where
  "separatorLength s =
     (let w = takeWhile isWhiteSpace s
      in length w - length (takeWhile (\<lambda>c. c \<noteq> 10) (rev w)))"

function splitBlocks :: "jsstring \<Rightarrow> jsstring \<Rightarrow> jsstring list" where
  "splitBlocks cur [] = [rev cur]"
| "splitBlocks cur (c # s) =
     (if c = 10 \<and> 10 \<in> set (takeWhile isWhiteSpace s)
      then rev cur # splitBlocks [] (drop (separatorLength s) s)
      else splitBlocks (c # cur) s)"
  by pat_completeness auto
termination
  by (relation "measure (\<lambda>(cur, s). length s)") auto

subsection \<open>Catalog classifier (\<^verbatim>\<open>findMatchingType\<close>)\<close>

text \<open>The catalog \<^verbatim>\<open>weightTypes\<close>; 233 and 250 are e and u with an acute accent.\<close>

definition weightTypes :: "jsstring list" where
  "weightTypes =
     [js ''Peso'',
      js ''BMI'',
      js ''Grasa'',
      js ''Peso de grasa corporal'',
      js ''Porcentaje de masa muscular esquel'' @ [233] @ js ''tica'',
      js ''Peso de la masa muscular esquel'' @ [233] @ js ''tica'',
      js ''M'' @ [250] @ js ''sculo'',
      js ''Peso muscular'',
      js ''Grasa Visceral'',
      js ''Agua (%)'',
      js ''Peso del agua'',
      js ''Metabolismo'']"

text \<open>
  \<^verbatim>\<open>.replace(/^[\s(\<bullet>]+\s*/, '')\<close>: the leading run of white space, opening
  brackets and bullets (code unit 8226) goes.
\<close>

definition stripLeadingMarkers :: "jsstring \<Rightarrow> jsstring" where
  "stripLeadingMarkers s = dropWhile (\<lambda>c. isWhiteSpace c \<or> c = 40 \<or> c = 8226) s"

text \<open>
  \<^verbatim>\<open>.replace(/\s*[\)\<bullet>]+\s*$/, '')\<close>: when the text, its trailing white space
  apart, ends in closing brackets or bullets, these go, with the white space on both
  sides of them.
\<close>

definition stripTrailingMarkers :: "jsstring \<Rightarrow> jsstring" where
  "stripTrailingMarkers s =
     (let r = dropWhile isWhiteSpace (rev s)
      in case r of
           [] \<Rightarrow> s
         | c # _ \<Rightarrow>
             if c = 41 \<or> c = 8226
             then rev (dropWhile isWhiteSpace (dropWhile (\<lambda>c. c = 41 \<or> c = 8226) r))
             else s)"

text \<open>
  \<^verbatim>\<open>.replace(/\s*\([^)]*\)\s*$/g, '')\<close>: when the text, its trailing white space
  apart, ends in a closing bracket, and an opening bracket stands before it with no
  closing bracket in between, the text is cut at the leftmost such opening bracket and
  the white space before it goes too.
\<close>

definition stripTrailingParen :: "jsstring \<Rightarrow> jsstring" where
  "stripTrailingParen s =
     (let r = dropWhile isWhiteSpace (rev s)
      in case r of
           [] \<Rightarrow> s
         | c # r' \<Rightarrow>
             if c = 41 \<and> 40 \<in> set (takeWhile (\<lambda>c. c \<noteq> 41) r')
             then trimEnd (rev (dropWhile (\<lambda>c. c \<noteq> 41) r')
                           @ takeWhile (\<lambda>c. c \<noteq> 40) (rev (takeWhile (\<lambda>c. c \<noteq> 41) r')))
             else s)"

text \<open>
  \<^verbatim>\<open>.replace(/\s*\/\s*\w+$/, '')\<close>: when the text ends in a word that follows a
  slash, the slash, the word and the white space around the slash go.
\<close>

definition stripTrailingSlash :: "jsstring \<Rightarrow> jsstring" where
  "stripTrailingSlash s =
     (let r = rev s
      in if takeWhile isWordChar r = [] then s
         else case dropWhile isWhiteSpace (dropWhile isWordChar r) of
                [] \<Rightarrow> s
              | c # r' \<Rightarrow> if c = 47 then rev (dropWhile isWhiteSpace r') else s)"

definition normalizeInput :: "jsstring \<Rightarrow> jsstring" where
  "normalizeInput input =
     trim (toLowerCase (stripTrailingSlash (stripTrailingParen
       (stripTrailingMarkers (stripLeadingMarkers input)))))"

record normalized_type =
  nt_original :: jsstring
  nt_normalized :: jsstring

text \<open>The normalized form of a catalog entry, as \<^verbatim>\<open>getNormalizedTypes\<close> computes it.\<close>

definition normalizeType :: "jsstring \<Rightarrow> jsstring" where
  "normalizeType type = trim (toLowerCase (stripTrailingParen type))"

definition getNormalizedTypes :: "normalized_type list" where
  "getNormalizedTypes =
     map (\<lambda>type. \<lparr>nt_original = type, nt_normalized = normalizeType type\<rparr>) weightTypes"

fun getCommonPrefixLength :: "jsstring \<Rightarrow> jsstring \<Rightarrow> nat" where
  "getCommonPrefixLength (x # xs) (y # ys) =
     (if x = y then Suc (getCommonPrefixLength xs ys) else 0)"
| "getCommonPrefixLength str1 str2 = 0"

record type_match =
  m_type :: jsstring
  m_score :: rat

text \<open>
  The score of one catalog entry, or \<open>None\<close> for the \<^verbatim>\<open>null\<close> of an entry that does
  not overlap the label. The two divisions never divide by zero: an empty length there
  would make the two strings equal, which the exact match has taken before.
\<close>

definition matchScore :: "jsstring \<Rightarrow> normalized_type \<Rightarrow> type_match option" where
  "matchScore normalizedInput nt =
     (let typeContainsInput = str_includes (nt_normalized nt) normalizedInput;
          inputContainsType = str_includes normalizedInput (nt_normalized nt)
      in if \<not> typeContainsInput \<and> \<not> inputContainsType then None
         else
           let score0 = 0;
               score1 =
                 (if inputContainsType
                  then score0 + 1000
                       + of_nat (length (nt_normalized nt)) / of_nat (length normalizedInput) * 100
                  else score0);
               score2 =
                 (if typeContainsInput
                  then score1 + 500
                       - of_nat (length normalizedInput) / of_nat (length (nt_normalized nt)) * 50
                  else score1);
               score3 = score2 + of_nat (length (nt_normalized nt)) * 10;
               commonPrefix = getCommonPrefixLength normalizedInput (nt_normalized nt);
               score4 = score3 + of_nat commonPrefix * 20;
               score5 =
                 (if normalizedInput = js ''peso'' \<and> nt_normalized nt \<noteq> js ''peso''
                  then score4 - 5000 else score4)
           in Some \<lparr>m_type = nt_original nt, m_score = score5\<rparr>)"

text \<open>
  \<^verbatim>\<open>findMatchingType\<close>. The sort by descending score is stable, so the first entry of
  the sorted list is the first of the entries with the highest score.
\<close>

definition findMatchingType :: "jsstring \<Rightarrow> jsstring option" where
  "findMatchingType input =
     (let normalizedInput = normalizeInput input;
          normalizedTypes = getNormalizedTypes
      in case find (\<lambda>nt. nt_normalized nt = normalizedInput) normalizedTypes of
           Some exactMatch \<Rightarrow> Some (nt_original exactMatch)
         | None \<Rightarrow>
             (let matches = List.map_filter (matchScore normalizedInput) normalizedTypes
              in if length matches = 0 then None
                 else let sortedMatches = sort_key (\<lambda>m. - m_score m) matches
                      in Some (m_type (sortedMatches ! 0))))"

subsection \<open>Text entry (\<^verbatim>\<open>parseWeightText\<close>)\<close>

record weight_item =
  w_type :: jsstring
  w_value :: jsstring
  w_comment :: jsstring

text \<open>The reactive variables \<^verbatim>\<open>weightText\<close>, \<^verbatim>\<open>weightItems\<close> and \<^verbatim>\<open>unmatchedBlocks\<close>.\<close>

record weight_state =
  weightText :: jsstring
  weightItems :: "weight_item list"
  unmatchedBlocks :: "jsstring list"

text \<open>\<^verbatim>\<open>block.trim().split('\n').map(l => l.trim()).filter(l => l)\<close>\<close>

definition blockLines :: "jsstring \<Rightarrow> jsstring list" where
  "blockLines block = filter (\<lambda>l. l \<noteq> []) (map trim (splitLines [] (trim block)))"

text \<open>
  The comment of a block: its lines from the third on, joined by spaces, without the
  words of fewer than two characters.
\<close>

definition filteredComment :: "jsstring list \<Rightarrow> jsstring" where
  "filteredComment lines =
     (let comment = (if length lines > 2 then join (js '' '') (drop 2 lines) else []);
          trimmedComment = trim comment
      in join (js '' '') (filter (\<lambda>word. length word \<ge> 2) (splitSpaces [] trimmedComment)))"

text \<open>
  The body of the \<^verbatim>\<open>forEach\<close> over the blocks, on the pair of the two local arrays
  \<^verbatim>\<open>matched\<close> and \<^verbatim>\<open>unmatched\<close>.
\<close>

definition parseBlock ::
  "weight_item list \<times> jsstring list \<Rightarrow> jsstring \<Rightarrow> weight_item list \<times> jsstring list" where
  "parseBlock acc block =
     (let (matched, unmatched) = acc;
          lines = blockLines block
      in if length lines \<ge> 2
         then
           let typeInput = lines ! 0;
               val = lines ! 1
           in case findMatchingType typeInput of
                Some matchedType \<Rightarrow>
                  (matched @ [\<lparr>w_type = matchedType, w_value = val,
                                w_comment = filteredComment lines\<rparr>],
                   unmatched)
              | None \<Rightarrow> (matched, unmatched @ [trim block])
         else (matched, unmatched))"

definition parseWeightText :: "weight_state \<Rightarrow> weight_state" where
  "parseWeightText st =
     (let blocks = splitBlocks [] (weightText st);
          (matched, unmatched) = foldl parseBlock ([], []) blocks
      in \<lparr>weightText = join (js [CHR 0x0A, CHR 0x0A]) unmatched,
          weightItems = weightItems st @ matched,
          unmatchedBlocks = unmatched\<rparr>)"

text \<open>
  What a block is classified as: the catalog entry found for its first line when it has
  at least two lines that are not blank, and nothing otherwise.
\<close>

definition classifiedAs :: "jsstring \<Rightarrow> jsstring option" where
  "classifiedAs block =
     (if length (blockLines block) \<ge> 2 then findMatchingType (blockLines block ! 0) else None)"

definition isUnmatched :: "jsstring \<Rightarrow> bool" where
  "isUnmatched block =
     (length (blockLines block) \<ge> 2 \<and> findMatchingType (blockLines block ! 0) = None)"

subsection \<open>Weekly grid (\<^verbatim>\<open>groupedBodyStats\<close>)\<close>

text \<open>
  A record of \<^verbatim>\<open>bodyStats\<close>, with \<^verbatim>\<open>parseInt(item.epoch)\<close> as its epoch in
  milliseconds.
\<close>

record body_stat =
  b_type :: jsstring
  b_value :: jsstring
  b_comment :: jsstring
  b_epoch :: int

text \<open>The number of the UTC day of an epoch, counted from 1 January 1970.\<close>

definition utcDay :: "int \<Rightarrow> int" where
  "utcDay epoch = epoch div 86400000"

text \<open>
  The calendar date of a UTC day, as \<^verbatim>\<open>getUTCFullYear\<close>, \<^verbatim>\<open>getUTCMonth\<close> (from 0)
  and \<^verbatim>\<open>getUTCDate\<close> give it for a date of the script: the day of the 400-year era
  that starts on a 1 March, the year of the era, the day of that year and the month counted
  from March.
\<close>

definition dayOfEra :: "int \<Rightarrow> int" where
  "dayOfEra days = (days + 719468) mod 146097"

definition yearOfEra :: "int \<Rightarrow> int" where
  "yearOfEra doe = (doe - doe div 1460 + doe div 36524 - doe div 146096) div 365"

definition dayOfYear :: "int \<Rightarrow> int" where
  "dayOfYear doe = doe - (365 * yearOfEra doe + yearOfEra doe div 4 - yearOfEra doe div 100)"

definition monthIndex :: "int \<Rightarrow> int" where
  "monthIndex doe = (5 * dayOfYear doe + 2) div 153"

definition getUTCDate :: "int \<Rightarrow> int" where
  "getUTCDate days =
     dayOfYear (dayOfEra days) - (153 * monthIndex (dayOfEra days) + 2) div 5 + 1"

definition getUTCMonth :: "int \<Rightarrow> int" where
  "getUTCMonth days =
     (if monthIndex (dayOfEra days) < 10 then monthIndex (dayOfEra days) + 2
      else monthIndex (dayOfEra days) - 10)"

definition getUTCFullYear :: "int \<Rightarrow> int" where
  "getUTCFullYear days =
     yearOfEra (dayOfEra days) + (days + 719468) div 146097 * 400
       + (if getUTCMonth days \<le> 1 then 1 else 0)"

text \<open>The decimal digits of a number, and \<^verbatim>\<open>String(n).padStart(2, '0')\<close>.\<close>

function decimal :: "nat \<Rightarrow> jsstring" where
  "decimal n = (if n < 10 then [48 + n] else decimal (n div 10) @ [48 + n mod 10])"
  by pat_completeness auto
termination
  by (relation "measure (\<lambda>n. n)") auto

declare decimal.simps [simp del]

definition numberToString :: "int \<Rightarrow> jsstring" where
  "numberToString n = (if n < 0 then 45 # decimal (nat (- n)) else decimal (nat n))"

definition padStart2 :: "jsstring \<Rightarrow> jsstring" where
  "padStart2 s = replicate (2 - length s) 48 @ s"

text \<open>
  The key that the script builds for a date: year, month and day of the month, joined by
  hyphens. Dates outside the range of the script's dates are not modelled.
\<close>

definition dateKey :: "int \<Rightarrow> jsstring" where
  "dateKey days =
     numberToString (getUTCFullYear days) @ js ''-''
       @ padStart2 (numberToString (getUTCMonth days + 1)) @ js ''-''
       @ padStart2 (numberToString (getUTCDate days))"

text \<open>A cell of the grid; \<open>None\<close> is the \<^verbatim>\<open>null\<close> of \<^verbatim>\<open>item?.value || null\<close>.\<close>

record grid_cell =
  g_date :: int
  g_value :: "jsstring option"
  g_comment :: jsstring
  g_hasData :: bool

text \<open>
  The object \<^verbatim>\<open>groups\<close> and the objects stored in it are plain objects of the script:
  a property that an object does not have itself is looked up in the prototype that all of
  them share. The prototype has the properties named below from the start, all of them
  functions but for \<^verbatim>\<open>__proto__\<close>, which gives the prototype itself.
\<close>

definition objectPrototypeNames :: "jsstring list" where
  "objectPrototypeNames =
     [js ''constructor'', js ''__defineGetter__'', js ''__defineSetter__'',
      js ''hasOwnProperty'', js ''__lookupGetter__'', js ''__lookupSetter__'',
      js ''isPrototypeOf'', js ''propertyIsEnumerable'', js ''toString'', js ''valueOf'',
      js ''__proto__'', js ''toLocaleString'']"

text \<open>
  The part of the store that the function reads and writes: the properties that
  \<^verbatim>\<open>groups\<close> has itself, each an object with its own properties, and the properties
  that records have been stored under in the shared prototype.
\<close>

record grid_heap =
  h_groups :: "jsstring \<rightharpoonup> (jsstring \<rightharpoonup> body_stat)"
  h_proto :: "jsstring \<rightharpoonup> body_stat"

text \<open>
  The body of the \<^verbatim>\<open>forEach\<close> that fills \<^verbatim>\<open>groups\<close>. When \<^verbatim>\<open>groups\<close> has
  the type as a property of its own, the record is stored in that object. Otherwise
  \<^verbatim>\<open>groups[type]\<close> is looked up in the prototype: for the type \<^verbatim>\<open>__proto__\<close> it is
  the prototype itself, and the record is stored there; for another name of the prototype,
  or a key under which a record is stored in the prototype, it is a function or a record,
  no object is created, and the store goes to that function or record, where nothing reads
  it. Only for a type that is found nowhere is a new object created and stored in
  \<^verbatim>\<open>groups\<close>.
\<close>

definition addItem :: "grid_heap \<Rightarrow> body_stat \<Rightarrow> grid_heap" where
  "addItem heap item =
     (let type = b_type item;
          key = dateKey (utcDay (b_epoch item))
      in case h_groups heap type of
           Some typeGroup \<Rightarrow>
             heap\<lparr>h_groups := (h_groups heap)(type \<mapsto> typeGroup(key \<mapsto> item))\<rparr>
         | None \<Rightarrow>
             if type = js ''__proto__''
             then heap\<lparr>h_proto := (h_proto heap)(key \<mapsto> item)\<rparr>
             else if type \<in> set objectPrototypeNames \<or> h_proto heap type \<noteq> None
             then heap
             else heap\<lparr>h_groups := (h_groups heap)(type \<mapsto> [key \<mapsto> item])\<rparr>)"

text \<open>
  \<^verbatim>\<open>groups[type][dateKey]\<close> for a type that \<^verbatim>\<open>groups\<close> has itself: the property
  of the object, or else what the prototype holds under the key. A date key is never one
  of the names that the prototype has from the start.
\<close>

definition lookupItem ::
  "(jsstring \<rightharpoonup> body_stat) \<Rightarrow> (jsstring \<rightharpoonup> body_stat) \<Rightarrow> jsstring \<Rightarrow> body_stat option" where
  "lookupItem typeGroup proto key =
     (case typeGroup key of Some item \<Rightarrow> Some item | None \<Rightarrow> proto key)"

definition gridCell ::
  "(jsstring \<rightharpoonup> body_stat) \<Rightarrow> (jsstring \<rightharpoonup> body_stat) \<Rightarrow> int \<Rightarrow> grid_cell" where
  "gridCell typeGroup proto date =
     (case lookupItem typeGroup proto (dateKey date) of
        None \<Rightarrow> \<lparr>g_date = date, g_value = None, g_comment = [], g_hasData = False\<rparr>
      | Some item \<Rightarrow>
          \<lparr>g_date = date,
           g_value = (if b_value item = [] then None else Some (b_value item)),
           g_comment = b_comment item,
           g_hasData = True\<rparr>)"

text \<open>
  \<^verbatim>\<open>groupedBodyStats\<close>, started with what earlier records have left in the prototype:
  the seven dates, the groups, and for every key that \<^verbatim>\<open>groups\<close> has itself
  (\<^verbatim>\<open>Object.keys\<close>) the seven cells. The date of a cell is kept as its day number.
\<close>

definition groupedBodyStatsFrom ::
  "(jsstring \<rightharpoonup> body_stat) \<Rightarrow> int \<Rightarrow> body_stat list \<Rightarrow> (jsstring \<rightharpoonup> grid_cell list)" where
  "groupedBodyStatsFrom proto0 startDay bodyStats =
     (let dates = map (\<lambda>i. startDay + int i) [0..<7];
          heap = foldl addItem \<lparr>h_groups = Map.empty, h_proto = proto0\<rparr> bodyStats
      in (\<lambda>type. case h_groups heap type of
                    None \<Rightarrow> None
                  | Some typeGroup \<Rightarrow> Some (map (gridCell typeGroup (h_proto heap)) dates)))"

text \<open>The grid on a page where no record has been stored in the prototype yet.\<close>

definition groupedBodyStats :: "int \<Rightarrow> body_stat list \<Rightarrow> (jsstring \<rightharpoonup> grid_cell list)" where
  "groupedBodyStats startDay bodyStats = groupedBodyStatsFrom Map.empty startDay bodyStats"

subsection \<open>Sequences of zoom operations\<close>

text \<open>
  The invariant that the specification gives for the zoom state, a sequence of zoom
  operations, and the condition that a fixed zoom length does not exceed the span of
  the data.
\<close>

definition zoomInvariant :: "zoom_state \<Rightarrow> bool" where
  "zoomInvariant st =
     (zoomLevel st \<noteq> ZoomAll \<longrightarrow>
        fullDataRange_min st \<le> zoomWindowStart st
      \<and> zoomWindowStart st + getZoomWindowSize st \<le> fullDataRange_max st)"

datatype zoom_op = SetZoom zoom | Pan direction

fun applyOp :: "zoom_state \<Rightarrow> zoom_op \<Rightarrow> zoom_state" where
  "applyOp st (SetZoom level) = setZoomLevel level st"
| "applyOp st (Pan dir) = moveZoomWindow dir st"

definition applyOps :: "zoom_op list \<Rightarrow> zoom_state \<Rightarrow> zoom_state" where
  "applyOps ops st = foldl applyOp st ops"

definition fitsRange :: "int \<Rightarrow> zoom_op \<Rightarrow> bool" where
  "fitsRange dataRange op =
     (case op of
        SetZoom (ZoomHours hours) \<Rightarrow> int hours * 60 * 60 * 1000 \<le> dataRange
      | _ \<Rightarrow> True)"

section \<open>Properties\<close>

subsection \<open>Auxiliary facts on rounding\<close>

lemma floor_rat_numeral:
  "\<lfloor>numeral a / numeral b :: rat\<rfloor> = numeral a div numeral b"
  "\<lfloor>- numeral a / numeral b :: rat\<rfloor> = - numeral a div numeral b"
  using floor_divide_of_int_eq [of "numeral a" "numeral b", where ?'a = rat]
    floor_divide_of_int_eq [of "- numeral a" "numeral b", where ?'a = rat]
  by simp_all

lemma toFixed0_of_int: "toFixed0 (of_int n) = n"
proof -
  have "\<lfloor>rat_of_int n + 1 / 2\<rfloor> = n" by linarith
  moreover have "\<lfloor>- rat_of_int n + 1 / 2\<rfloor> = - n" by linarith
  ultimately show ?thesis by (simp add: toFixed0_def)
qed

lemma toFixed0_Ints: "x \<in> \<int> \<Longrightarrow> of_int (toFixed0 x) = x"
  by (auto simp: Ints_def toFixed0_of_int)

subsection \<open>The aggregator against its specification\<close>

lemma foldl_sum_values:
  "foldl (\<lambda>sum r. sum + r_value r) a g = a + sum_list (map r_value g)"
  by (induction g arbitrary: a) auto

lemma closeGroup_spec_point: "g \<noteq> [] \<Longrightarrow> closeGroup g = spec_point g"
  by (cases g) (simp_all add: closeGroup_def avgValue_def spec_mean_def foldl_sum_values)

text \<open>
  The loop invariant: with the group \<open>c # cur\<close> open, the loop emits what is already
  grouped, then the open group extended by the samples that still join it, then the
  groups of the remaining samples.
\<close>

lemma groupLoop_spec:
  "groupLoop T rs (c # cur) grouped =
     grouped @ map spec_point
       ((c # cur @ takeWhile (\<lambda>s. r_timestamp s - r_timestamp c \<le> T) rs)
         # spec_groups T (dropWhile (\<lambda>s. r_timestamp s - r_timestamp c \<le> T) rs))"
proof (induction rs arbitrary: c cur grouped)
  case Nil
  show ?case using closeGroup_spec_point [of "c # cur"] by simp
next
  case (Cons r rs)
  show ?case
  proof (cases "r_timestamp r - r_timestamp c \<le> T")
    case True
    then show ?thesis using Cons.IH [of c "cur @ [r]" grouped] by simp
  next
    case False
    then show ?thesis
      using Cons.IH [of r "[]" "grouped @ [closeGroup (c # cur)]"]
        closeGroup_spec_point [of "c # cur"]
      by simp
  qed
qed

lemma groupGlucoseReadings_spec:
  "groupGlucoseReadings readings T = map spec_point (spec_groups T readings)"
  by (cases readings) (simp_all add: groupGlucoseReadings_def groupLoop_spec)

lemma concat_spec_groups: "concat (spec_groups T rs) = rs"
  by (induction T rs rule: spec_groups.induct) simp_all

lemma spec_groups_Nil_iff: "(spec_groups T rs = []) = (rs = [])"
  by (cases rs) simp_all

lemma spec_groups_singletons:
  "sorted (map r_timestamp rs) \<Longrightarrow> distinct (map r_timestamp rs) \<Longrightarrow>
   spec_groups 0 rs = map (\<lambda>r. [r]) rs"
proof (induction rs)
  case Nil
  show ?case by simp
next
  case (Cons r rs)
  have later: "\<forall>s \<in> set rs. \<not> r_timestamp s - r_timestamp r \<le> 0"
  proof
    fix s assume s: "s \<in> set rs"
    then have "r_timestamp r \<le> r_timestamp s" using Cons.prems(1) by simp
    moreover have "r_timestamp r \<noteq> r_timestamp s" using Cons.prems(2) s by auto
    ultimately show "\<not> r_timestamp s - r_timestamp r \<le> 0" by simp
  qed
  then have "takeWhile (\<lambda>s. r_timestamp s - r_timestamp r \<le> 0) rs = []"
    by (cases rs) simp_all
  moreover from later have "dropWhile (\<lambda>s. r_timestamp s - r_timestamp r \<le> 0) rs = rs"
    by (cases rs) simp_all
  ultimately show ?case using Cons by simp
qed

lemma threshold0_points:
  assumes "sorted (map r_timestamp readings)" "distinct (map r_timestamp readings)"
  shows "groupGlucoseReadings readings 0 =
           map (\<lambda>r. \<lparr>p_value = toFixed0 (r_value r), p_timestamp = r_timestamp r\<rparr>) readings"
  by (simp add: groupGlucoseReadings_spec spec_groups_singletons [OF assms] spec_mean_def comp_def)

text \<open>
  C1. For every list of glucose samples and every threshold, in particular for a
  chronologically sorted list and a threshold that is not negative, the aggregator cuts
  the input from left to right into contiguous groups, a sample joining the open group
  exactly when its time is at most the threshold after the time of the group's first
  sample. It emits one point for each group, the last one included: the mean of the
  group's values rounded to the display precision, at the time of the group's first
  sample. The output is empty exactly when the input is.
\<close>

theorem aggregator_groups_and_means:
  "groupGlucoseReadings readings T = map spec_point (spec_groups T readings)
   \<and> concat (spec_groups T readings) = readings
   \<and> length (groupGlucoseReadings readings T) = length (spec_groups T readings)
   \<and> ((groupGlucoseReadings readings T = []) = (readings = []))"
  by (simp add: groupGlucoseReadings_spec concat_spec_groups spec_groups_Nil_iff)

text \<open>
  The scenario of the specification: samples 70 at 05:57, 77 at 06:12 and 75 at 06:20
  with a threshold of 30 minutes form one group, emitted as 74 at 05:57.
\<close>

theorem aggregator_groups_and_means_witness:
  "groupGlucoseReadings
     [\<lparr>r_value = 70, r_timestamp = 21420000\<rparr>, \<lparr>r_value = 77, r_timestamp = 22320000\<rparr>,
      \<lparr>r_value = 75, r_timestamp = 22800000\<rparr>] 1800000
   = [\<lparr>p_value = 74, p_timestamp = 21420000\<rparr>]"
  using aggregator_groups_and_means
    [of "[\<lparr>r_value = 70, r_timestamp = 21420000\<rparr>, \<lparr>r_value = 77, r_timestamp = 22320000\<rparr>,
          \<lparr>r_value = 75, r_timestamp = 22800000\<rparr>]" 1800000]
  by (simp add: spec_mean_def toFixed0_def floor_rat_numeral)

text \<open>
  C2, as stated: with a threshold of 0 every emitted point carries its sample's value
  unchanged. This fails for a value that is not an integer: the sample 75.5 is emitted
  as 76.
\<close>

theorem threshold0_value_counterexample:
  "groupGlucoseReadings [\<lparr>r_value = 151 / 2, r_timestamp = 0\<rparr>] 0
     = [\<lparr>p_value = 76, p_timestamp = 0\<rparr>]
   \<and> rat_of_int 76 \<noteq> 151 / 2"
  by (simp add: groupGlucoseReadings_def closeGroup_def avgValue_def toFixed0_def
        floor_rat_numeral)

text \<open>
  C2, amended. With a threshold of 0, on a sorted list of samples with pairwise different
  times, every sample is a group of its own: the emitted point carries the sample's time
  unchanged and the sample's value rounded to the display precision, which is the value
  itself when all values are integers.
\<close>

theorem threshold0_identity:
  assumes "sorted (map r_timestamp readings)" "distinct (map r_timestamp readings)"
  shows "groupGlucoseReadings readings 0 =
           map (\<lambda>r. \<lparr>p_value = toFixed0 (r_value r), p_timestamp = r_timestamp r\<rparr>) readings
       \<and> map p_timestamp (groupGlucoseReadings readings 0) = map r_timestamp readings
       \<and> ((\<forall>r \<in> set readings. r_value r \<in> \<int>) \<longrightarrow>
            map (\<lambda>p. rat_of_int (p_value p)) (groupGlucoseReadings readings 0)
              = map r_value readings)"
  by (simp add: threshold0_points [OF assms] comp_def toFixed0_Ints)

theorem threshold0_identity_witness:
  "groupGlucoseReadings
     [\<lparr>r_value = 75, r_timestamp = 21420000\<rparr>, \<lparr>r_value = 155 / 2, r_timestamp = 21420001\<rparr>] 0
   = [\<lparr>p_value = 75, p_timestamp = 21420000\<rparr>, \<lparr>p_value = 78, p_timestamp = 21420001\<rparr>]"
  using threshold0_identity
    [of "[\<lparr>r_value = 75, r_timestamp = 21420000\<rparr>,
          \<lparr>r_value = 155 / 2, r_timestamp = 21420001\<rparr>]"]
  by (simp add: toFixed0_def floor_rat_numeral)

subsection \<open>The correlator\<close>

lemma closestLoop_foldl:
  "closestLoop t gs (Some c) (Some \<bar>p_timestamp c - t\<bar>) =
     Some (foldl (\<lambda>b g. if \<bar>p_timestamp g - t\<bar> < \<bar>p_timestamp b - t\<bar> then g else b) c gs)"
  by (induction gs arbitrary: c) (simp_all add: Let_def)

text \<open>
  One more point scanned: the candidate stays the first point at the least distance.
\<close>

lemma nearest_first_step:
  fixes d :: "'a \<Rightarrow> int"
  assumes i: "i < length xs"
    and le: "\<forall>j < length xs. d (xs ! i) \<le> d (xs ! j)"
    and lt: "\<forall>j < i. d (xs ! i) < d (xs ! j)"
  shows "\<exists>k < length (xs @ [g]).
           (if d g < d (xs ! i) then g else xs ! i) = (xs @ [g]) ! k
         \<and> (\<forall>j < length (xs @ [g]). d ((xs @ [g]) ! k) \<le> d ((xs @ [g]) ! j))
         \<and> (\<forall>j < k. d ((xs @ [g]) ! k) < d ((xs @ [g]) ! j))"
proof (cases "d g < d (xs ! i)")
  case True
  have "\<forall>j < length xs. d g < d (xs ! j)"
    using True le by fastforce
  then have "(\<forall>j < length (xs @ [g]). d ((xs @ [g]) ! length xs) \<le> d ((xs @ [g]) ! j))
           \<and> (\<forall>j < length xs. d ((xs @ [g]) ! length xs) < d ((xs @ [g]) ! j))"
    by (auto simp: nth_append less_Suc_eq dest: order.strict_implies_order)
  then show ?thesis using True by (intro exI [of _ "length xs"]) simp
next
  case False
  have "(\<forall>j < length (xs @ [g]). d ((xs @ [g]) ! i) \<le> d ((xs @ [g]) ! j))
      \<and> (\<forall>j < i. d ((xs @ [g]) ! i) < d ((xs @ [g]) ! j))"
    using False i le lt by (auto simp: nth_append less_Suc_eq)
  then show ?thesis using False i by (intro exI [of _ i]) (simp add: nth_append)
qed

lemma foldl_nearest_first:
  fixes d :: "'a \<Rightarrow> int"
  shows "\<exists>i < length (c # gs).
           foldl (\<lambda>b g. if d g < d b then g else b) c gs = (c # gs) ! i
         \<and> (\<forall>j < length (c # gs). d ((c # gs) ! i) \<le> d ((c # gs) ! j))
         \<and> (\<forall>j < i. d ((c # gs) ! i) < d ((c # gs) ! j))"
proof (induction gs rule: rev_induct)
  case Nil
  show ?case by simp
next
  case (snoc g gs)
  then obtain i where i: "i < length (c # gs)"
    and r: "foldl (\<lambda>b g. if d g < d b then g else b) c gs = (c # gs) ! i"
    and le: "\<forall>j < length (c # gs). d ((c # gs) ! i) \<le> d ((c # gs) ! j)"
    and lt: "\<forall>j < i. d ((c # gs) ! i) < d ((c # gs) ! j)" by blast
  have app: "c # gs @ [g] = (c # gs) @ [g]" by simp
  have "foldl (\<lambda>b g. if d g < d b then g else b) c (gs @ [g]) =
      (if d g < d ((c # gs) ! i) then g else (c # gs) ! i)"
    using r by simp
  then show ?case
    using nearest_first_step [OF i le lt, of g] unfolding app by presburger
qed

lemma closestGlucose_nearest_first:
  assumes "ps \<noteq> []"
  shows "\<exists>i < length ps. closestGlucose ps t = Some (ps ! i)
           \<and> (\<forall>j < length ps. \<bar>p_timestamp (ps ! i) - t\<bar> \<le> \<bar>p_timestamp (ps ! j) - t\<bar>)
           \<and> (\<forall>j < i. \<bar>p_timestamp (ps ! i) - t\<bar> < \<bar>p_timestamp (ps ! j) - t\<bar>)"
proof -
  from assms obtain c gs where ps: "ps = c # gs" by (cases ps) auto
  have "closestGlucose ps t =
      Some (foldl (\<lambda>b g. if \<bar>p_timestamp g - t\<bar> < \<bar>p_timestamp b - t\<bar> then g else b) c gs)"
    by (simp add: ps closestGlucose_def closestLoop_foldl)
  then show ?thesis
    using foldl_nearest_first [of c gs "\<lambda>p. \<bar>p_timestamp p - t\<bar>"] unfolding ps by simp
qed

text \<open>
  C3. For every event that is not a glucose reading and every sequence of aggregated
  points that is not empty, the y-value plotted for the event is the value of a point
  whose time is at the least absolute distance from the event's time, and every point
  before it in the sequence is strictly farther from the event: of two points at the
  same distance the one scanned first, the earlier one, is taken.
\<close>

theorem correlator_nearest_earliest:
  assumes "groupedGlucoseData \<noteq> []"
  shows "\<exists>i < length groupedGlucoseData.
           closestGlucose groupedGlucoseData (e_timestamp ev) = Some (groupedGlucoseData ! i)
         \<and> s_y (scatterPoint groupedGlucoseData ev) = p_value (groupedGlucoseData ! i)
         \<and> (\<forall>j < length groupedGlucoseData.
               \<bar>p_timestamp (groupedGlucoseData ! i) - e_timestamp ev\<bar>
                 \<le> \<bar>p_timestamp (groupedGlucoseData ! j) - e_timestamp ev\<bar>)
         \<and> (\<forall>j < i.
               \<bar>p_timestamp (groupedGlucoseData ! i) - e_timestamp ev\<bar>
                 < \<bar>p_timestamp (groupedGlucoseData ! j) - e_timestamp ev\<bar>)"
proof -
  from closestGlucose_nearest_first [OF assms, of "e_timestamp ev"]
  obtain i where i: "i < length groupedGlucoseData"
    "closestGlucose groupedGlucoseData (e_timestamp ev) = Some (groupedGlucoseData ! i)"
    "\<forall>j < length groupedGlucoseData.
       \<bar>p_timestamp (groupedGlucoseData ! i) - e_timestamp ev\<bar>
         \<le> \<bar>p_timestamp (groupedGlucoseData ! j) - e_timestamp ev\<bar>"
    "\<forall>j < i. \<bar>p_timestamp (groupedGlucoseData ! i) - e_timestamp ev\<bar>
         < \<bar>p_timestamp (groupedGlucoseData ! j) - e_timestamp ev\<bar>"
    by blast
  have "s_y (scatterPoint groupedGlucoseData ev) = p_value (groupedGlucoseData ! i)"
    by (simp add: scatterPoint_def yValue_def i(2))
  with i show ?thesis by blast
qed

text \<open>
  The example of the specification: points at 08:00 and 08:10, an event at 08:05; the
  event is plotted at the value of the point at 08:00.
\<close>

theorem correlator_nearest_earliest_witness:
  "s_y (scatterPoint
          [\<lparr>p_value = 100, p_timestamp = 28800000\<rparr>, \<lparr>p_value = 120, p_timestamp = 29400000\<rparr>]
          \<lparr>e_type = ''food'', e_desc = ''lunch'', e_timestamp = 29100000\<rparr>) = 100"
proof -
  let ?g = "[\<lparr>p_value = 100, p_timestamp = 28800000\<rparr>, \<lparr>p_value = 120, p_timestamp = 29400000\<rparr>]"
  let ?ev = "\<lparr>e_type = ''food'', e_desc = ''lunch'', e_timestamp = 29100000\<rparr>"
  have ne: "?g \<noteq> []" by simp
  from correlator_nearest_earliest [OF ne, of ?ev]
  obtain i where i: "i < length ?g" "s_y (scatterPoint ?g ?ev) = p_value (?g ! i)"
    "\<forall>j < i. \<bar>p_timestamp (?g ! i) - e_timestamp ?ev\<bar> < \<bar>p_timestamp (?g ! j) - e_timestamp ?ev\<bar>"
    by blast
  have "i = 0"
  proof (rule ccontr)
    assume "i \<noteq> 0"
    with i(1) have "i = 1" by simp
    then have "0 < i" by simp
    from i(3) [rule_format, OF this] show False unfolding \<open>i = 1\<close> by simp
  qed
  with i(2) show ?thesis by simp
qed

subsection \<open>The trend\<close>

lemma trendLevel_bands:
  "(js_gt rate 2 \<longrightarrow> trendArrows (trendLevel rate) = Some ArrowUp)
 \<and> (js_gt rate 1 \<and> js_le rate 2 \<longrightarrow> trendArrows (trendLevel rate) = Some ArrowUpRight)
 \<and> (js_ge rate (- 1) \<and> js_le rate 1 \<longrightarrow> trendArrows (trendLevel rate) = Some ArrowRight)
 \<and> (js_ge rate (- 2) \<and> js_lt rate (- 1) \<longrightarrow> trendArrows (trendLevel rate) = Some ArrowDownRight)
 \<and> (js_lt rate (- 2) \<longrightarrow> trendArrows (trendLevel rate) = Some ArrowDown)"
  by (cases rate) (auto simp: trendLevel_def trendArrows_def)

lemma ratePerMinute_finite:
  assumes "length readings \<ge> 2" "r_timestamp (last readings) \<noteq> r_timestamp (hd readings)"
  shows "ratePerMinute readings =
           Fin ((r_value (last readings) - r_value (hd readings))
                / (of_int (r_timestamp (last readings) - r_timestamp (hd readings)) / 60000))"
proof -
  from assms(1) have ne: "readings \<noteq> []" by auto
  have "readings ! (length readings - 1) = last readings" "readings ! 0 = hd readings"
    using ne by (simp_all add: last_conv_nth hd_conv_nth)
  then show ?thesis using assms(2) by (simp add: ratePerMinute_def js_div_def Let_def)
qed

text \<open>
  C4. The trend of fewer than two samples is "no trend". Otherwise, with the rate being
  the last value minus the first value of the day, divided by the minutes between the
  two samples, the trend is sharply rising for a rate above 2, rising for a rate above 1
  and at most 2, stable for a rate from -1 to 1, falling for a rate from -2 to below -1,
  and sharply falling for a rate below -2. When the two samples are at different times
  the rate is this finite quotient.
\<close>

theorem trend_five_bands:
  "(length readings < 2 \<longrightarrow> currentTrend readings = None)
 \<and> (length readings \<ge> 2 \<longrightarrow>
      (js_gt (ratePerMinute readings) 2 \<longrightarrow> currentTrend readings = Some ArrowUp)
    \<and> (js_gt (ratePerMinute readings) 1 \<and> js_le (ratePerMinute readings) 2 \<longrightarrow>
          currentTrend readings = Some ArrowUpRight)
    \<and> (js_ge (ratePerMinute readings) (- 1) \<and> js_le (ratePerMinute readings) 1 \<longrightarrow>
          currentTrend readings = Some ArrowRight)
    \<and> (js_ge (ratePerMinute readings) (- 2) \<and> js_lt (ratePerMinute readings) (- 1) \<longrightarrow>
          currentTrend readings = Some ArrowDownRight)
    \<and> (js_lt (ratePerMinute readings) (- 2) \<longrightarrow> currentTrend readings = Some ArrowDown))
 \<and> (length readings \<ge> 2 \<and> r_timestamp (last readings) \<noteq> r_timestamp (hd readings) \<longrightarrow>
      ratePerMinute readings =
        Fin ((r_value (last readings) - r_value (hd readings))
             / (of_int (r_timestamp (last readings) - r_timestamp (hd readings)) / 60000)))"
proof (intro conjI impI)
  assume "length readings < 2"
  then show "currentTrend readings = None" by (simp add: currentTrend_def)
next
  assume "length readings \<ge> 2 \<and> r_timestamp (last readings) \<noteq> r_timestamp (hd readings)"
  then show "ratePerMinute readings =
        Fin ((r_value (last readings) - r_value (hd readings))
             / (of_int (r_timestamp (last readings) - r_timestamp (hd readings)) / 60000))"
    using ratePerMinute_finite by blast
next
  assume l: "length readings \<ge> 2"
  then have c: "currentTrend readings = trendArrows (trendLevel (ratePerMinute readings))"
    by (auto simp: currentTrend_def)
  note b = trendLevel_bands [of "ratePerMinute readings"]
  { assume "js_gt (ratePerMinute readings) 2"
    then show "currentTrend readings = Some ArrowUp" using b c by simp }
  { assume "js_gt (ratePerMinute readings) 1 \<and> js_le (ratePerMinute readings) 2"
    then show "currentTrend readings = Some ArrowUpRight" using b c by simp }
  { assume "js_ge (ratePerMinute readings) (- 1) \<and> js_le (ratePerMinute readings) 1"
    then show "currentTrend readings = Some ArrowRight" using b c by simp }
  { assume "js_ge (ratePerMinute readings) (- 2) \<and> js_lt (ratePerMinute readings) (- 1)"
    then show "currentTrend readings = Some ArrowDownRight" using b c by simp }
  { assume "js_lt (ratePerMinute readings) (- 2)"
    then show "currentTrend readings = Some ArrowDown" using b c by simp }
qed

text \<open>
  A rise of 120 over 60 minutes is a rate of exactly 2, which is rising and not sharply
  rising; one sample alone has no trend.
\<close>

theorem trend_five_bands_witness:
  "currentTrend [\<lparr>r_value = 70, r_timestamp = 0\<rparr>, \<lparr>r_value = 190, r_timestamp = 3600000\<rparr>]
     = Some ArrowUpRight
 \<and> ratePerMinute [\<lparr>r_value = 70, r_timestamp = 0\<rparr>, \<lparr>r_value = 190, r_timestamp = 3600000\<rparr>]
     = Fin 2
 \<and> currentTrend [\<lparr>r_value = 70, r_timestamp = 0\<rparr>] = None"
  using trend_five_bands
      [of "[\<lparr>r_value = 70, r_timestamp = 0\<rparr>, \<lparr>r_value = 190, r_timestamp = 3600000\<rparr>]"]
    trend_five_bands [of "[\<lparr>r_value = 70, r_timestamp = 0\<rparr>]"]
  by simp


subsection \<open>The zoom window\<close>

lemma setZoomLevel_range [simp]:
  "fullDataRange_min (setZoomLevel l st) = fullDataRange_min st"
  "fullDataRange_max (setZoomLevel l st) = fullDataRange_max st"
  by (simp_all add: setZoomLevel_def Let_def split: zoom.splits)

lemma moveZoomWindow_range [simp]:
  "fullDataRange_min (moveZoomWindow d st) = fullDataRange_min st"
  "fullDataRange_max (moveZoomWindow d st) = fullDataRange_max st"
  by (simp_all add: moveZoomWindow_def Let_def)

lemma applyOp_range [simp]:
  "fullDataRange_min (applyOp st op) = fullDataRange_min st"
  "fullDataRange_max (applyOp st op) = fullDataRange_max st"
  by (cases op; simp)+

lemma applyOps_range [simp]:
  "fullDataRange_min (applyOps ops st) = fullDataRange_min st"
  "fullDataRange_max (applyOps ops st) = fullDataRange_max st"
  unfolding applyOps_def by (induction ops arbitrary: st) simp_all

lemma setZoomLevel_inv:
  "fitsRange (fullDataRange_max st - fullDataRange_min st) (SetZoom l) \<Longrightarrow>
   zoomInvariant (setZoomLevel l st)"
  by (auto simp: zoomInvariant_def setZoomLevel_def fitsRange_def getZoomWindowSize_def Let_def
           split: zoom.splits)

lemma moveZoomWindow_inv:
  "zoomInvariant st \<Longrightarrow> zoomInvariant (moveZoomWindow d st)"
  by (cases "zoomLevel st")
     (auto simp: zoomInvariant_def moveZoomWindow_def getZoomWindowSize_def Let_def)

lemma applyOp_inv:
  "zoomInvariant st \<Longrightarrow> fitsRange (fullDataRange_max st - fullDataRange_min st) op \<Longrightarrow>
   zoomInvariant (applyOp st op)"
  by (cases op) (simp_all add: setZoomLevel_inv moveZoomWindow_inv)

lemma applyOps_inv:
  "zoomInvariant st \<Longrightarrow>
   \<forall>op \<in> set ops. fitsRange (fullDataRange_max st - fullDataRange_min st) op \<Longrightarrow>
   zoomInvariant (applyOps ops st)"
  unfolding applyOps_def
  by (induction ops arbitrary: st) (simp_all add: applyOp_inv)

lemma zoomWindow_within:
  assumes "fullDataRange_min st = mn" "fullDataRange_max st = mx" "mn \<le> mx"
  shows "mn \<le> fst (zoomWindow st mn mx) \<and> fst (zoomWindow st mn mx) \<le> snd (zoomWindow st mn mx)
       \<and> snd (zoomWindow st mn mx) \<le> mx"
  using assms
  by (cases "zoomLevel st")
     (auto simp: zoomWindow_def getZoomWindowSize_def Let_def)

lemma zoomWindow_closed_interval:
  assumes "fullDataRange_min st = mn" "fullDataRange_max st = mx" "mn \<le> x" "x \<le> mx"
  shows "(fst (zoomWindow st mn mx) \<le> x \<and> x \<le> snd (zoomWindow st mn mx)) =
         (fst (zoomWindow st mn mx) \<le> x \<and> x \<le> fst (zoomWindow st mn mx) + getZoomWindowSize st)"
  using assms
  by (cases "zoomLevel st")
     (auto simp: zoomWindow_def getZoomWindowSize_def Let_def)

lemma moveZoomWindow_noop:
  "zoomLevel st = ZoomAll \<or> fullDataRange_max st - fullDataRange_min st \<le> 0 \<Longrightarrow>
   moveZoomWindow dir st = st"
  by (auto simp: moveZoomWindow_def Let_def)

lemma moveZoomWindow_shift:
  assumes "zoomLevel st \<noteq> ZoomAll" "fullDataRange_max st - fullDataRange_min st > 0"
  shows "zoomWindowStart (moveZoomWindow PanLeft st) =
           max (fullDataRange_min st) (zoomWindowStart st - getZoomWindowSize st div 2)"
    and "zoomWindowStart (moveZoomWindow PanRight st) =
           min (fullDataRange_max st - getZoomWindowSize st)
               (zoomWindowStart st + getZoomWindowSize st div 2)"
    and "2 * (getZoomWindowSize st div 2) = getZoomWindowSize st"
    and "zoomLevel (moveZoomWindow dir st) = zoomLevel st"
  using assms
  by (cases "zoomLevel st"; simp add: moveZoomWindow_def getZoomWindowSize_def Let_def)+

text \<open>
  C5. Setting the zoom to "all" makes the window that is drawn the full range. Setting it
  to a fixed length puts the window start at the start of the full range when the span of
  the full range is at most the length, and the window drawn is then the full range;
  otherwise the window starts at the end of the full range minus the length and ends at
  the end of the full range.
\<close>

theorem setZoom_window_start:
  "zoomWindow (setZoomLevel ZoomAll st) (fullDataRange_min st) (fullDataRange_max st)
     = (fullDataRange_min st, fullDataRange_max st)
 \<and> (fullDataRange_max st - fullDataRange_min st \<le> int hours * 60 * 60 * 1000 \<longrightarrow>
      zoomWindowStart (setZoomLevel (ZoomHours hours) st) = fullDataRange_min st
    \<and> zoomWindow (setZoomLevel (ZoomHours hours) st) (fullDataRange_min st) (fullDataRange_max st)
        = (fullDataRange_min st, fullDataRange_max st))
 \<and> (fullDataRange_max st - fullDataRange_min st > int hours * 60 * 60 * 1000 \<longrightarrow>
      zoomWindowStart (setZoomLevel (ZoomHours hours) st)
        = fullDataRange_max st - int hours * 60 * 60 * 1000
    \<and> zoomWindow (setZoomLevel (ZoomHours hours) st) (fullDataRange_min st) (fullDataRange_max st)
        = (fullDataRange_max st - int hours * 60 * 60 * 1000, fullDataRange_max st))"
  by (auto simp add: zoomWindow_def setZoomLevel_def getZoomWindowSize_def Let_def)

text \<open>
  A zoom of 4 hours on data from 06:00 to 08:00 shows the full range; on data from 06:00
  to 18:00 it shows 14:00 to 18:00.
\<close>

theorem setZoom_window_start_witness:
  "zoomWindow
     (setZoomLevel (ZoomHours 4)
        \<lparr>zoomLevel = ZoomAll, zoomWindowStart = 0,
         fullDataRange_min = 21600000, fullDataRange_max = 28800000\<rparr>)
     21600000 28800000 = (21600000, 28800000)
 \<and> zoomWindow
     (setZoomLevel (ZoomHours 4)
        \<lparr>zoomLevel = ZoomAll, zoomWindowStart = 0,
         fullDataRange_min = 21600000, fullDataRange_max = 64800000\<rparr>)
     21600000 64800000 = (50400000, 64800000)"
  using setZoom_window_start
      [of "\<lparr>zoomLevel = ZoomAll, zoomWindowStart = 0,
            fullDataRange_min = 21600000, fullDataRange_max = 28800000\<rparr>" 4]
    setZoom_window_start
      [of "\<lparr>zoomLevel = ZoomAll, zoomWindowStart = 0,
            fullDataRange_min = 21600000, fullDataRange_max = 64800000\<rparr>" 4]
  by simp

text \<open>
  C6, as stated: after every operation with a fixed zoom the window start plus the window
  length is at most the end of the full range. A zoom of 4 hours on data from 06:00 to
  08:00 starts the window at 06:00, and 06:00 plus 4 hours is past 08:00.
\<close>

theorem zoom_invariant_counterexample:
  "\<not> zoomInvariant
       (applyOps [SetZoom (ZoomHours 4)]
          \<lparr>zoomLevel = ZoomAll, zoomWindowStart = 0,
           fullDataRange_min = 21600000, fullDataRange_max = 28800000\<rparr>)"
  by (simp add: applyOps_def zoomInvariant_def setZoomLevel_def getZoomWindowSize_def)

text \<open>
  C6, amended. For every full range and every sequence of zoom settings and pans in which
  no fixed zoom length exceeds the span of the full range, started in a state that meets
  the invariant, the resulting state meets it: with a fixed zoom the window start is at
  least the start of the full range and the window start plus the window length is at
  most its end. A pan changes nothing when the zoom is "all" or the full range has no
  positive span; otherwise, in a state that meets the invariant, it moves the window
  start by half the window length, to the left not below the start of the full range, to
  the right not above its end minus the window length. When a fixed length exceeds the
  span, setting the zoom stores the start of the full range as window start, so that the
  window start plus the window length is past the end of the full range. In every state,
  whether it meets the invariant or not, the window that is drawn lies within the full
  range.
\<close>

theorem zoom_invariant_within_span:
  "(zoomInvariant st
      \<and> (\<forall>op \<in> set ops. fitsRange (fullDataRange_max st - fullDataRange_min st) op) \<longrightarrow>
      zoomInvariant (applyOps ops st))
 \<and> fullDataRange_min (applyOps ops st) = fullDataRange_min st
 \<and> fullDataRange_max (applyOps ops st) = fullDataRange_max st
 \<and> (zoomLevel st = ZoomAll \<or> fullDataRange_max st - fullDataRange_min st \<le> 0 \<longrightarrow>
      moveZoomWindow dir st = st)
 \<and> (zoomInvariant st \<and> zoomLevel st \<noteq> ZoomAll
      \<and> fullDataRange_max st - fullDataRange_min st > 0 \<longrightarrow>
      zoomWindowStart (moveZoomWindow PanLeft st) =
        max (fullDataRange_min st) (zoomWindowStart st - getZoomWindowSize st div 2)
    \<and> zoomWindowStart (moveZoomWindow PanRight st) =
        min (fullDataRange_max st - getZoomWindowSize st)
            (zoomWindowStart st + getZoomWindowSize st div 2)
    \<and> 2 * (getZoomWindowSize st div 2) = getZoomWindowSize st
    \<and> zoomLevel (moveZoomWindow dir st) = zoomLevel st
    \<and> zoomInvariant (moveZoomWindow dir st))
 \<and> (fullDataRange_max st - fullDataRange_min st < int hours * 60 * 60 * 1000 \<longrightarrow>
      zoomWindowStart (setZoomLevel (ZoomHours hours) st) = fullDataRange_min st
    \<and> fullDataRange_max st
        < zoomWindowStart (setZoomLevel (ZoomHours hours) st)
          + getZoomWindowSize (setZoomLevel (ZoomHours hours) st))
 \<and> (fullDataRange_min st \<le> fullDataRange_max st \<longrightarrow>
      fullDataRange_min st \<le> fst (zoomWindow st (fullDataRange_min st) (fullDataRange_max st))
    \<and> fst (zoomWindow st (fullDataRange_min st) (fullDataRange_max st))
        \<le> snd (zoomWindow st (fullDataRange_min st) (fullDataRange_max st))
    \<and> snd (zoomWindow st (fullDataRange_min st) (fullDataRange_max st))
        \<le> fullDataRange_max st)"
proof (intro conjI impI)
  assume "zoomInvariant st
      \<and> (\<forall>op \<in> set ops. fitsRange (fullDataRange_max st - fullDataRange_min st) op)"
  then show "zoomInvariant (applyOps ops st)" using applyOps_inv by blast
next
  show "fullDataRange_min (applyOps ops st) = fullDataRange_min st" by simp
  show "fullDataRange_max (applyOps ops st) = fullDataRange_max st" by simp
next
  assume "zoomLevel st = ZoomAll \<or> fullDataRange_max st - fullDataRange_min st \<le> 0"
  then show "moveZoomWindow dir st = st" by (rule moveZoomWindow_noop)
next
  assume a: "zoomInvariant st \<and> zoomLevel st \<noteq> ZoomAll
      \<and> fullDataRange_max st - fullDataRange_min st > 0"
  then have i: "zoomInvariant st" and l: "zoomLevel st \<noteq> ZoomAll"
    and r: "fullDataRange_max st - fullDataRange_min st > 0"
    by simp_all
  show "zoomWindowStart (moveZoomWindow PanLeft st) =
          max (fullDataRange_min st) (zoomWindowStart st - getZoomWindowSize st div 2)"
    by (rule moveZoomWindow_shift(1) [OF l r])
  show "zoomWindowStart (moveZoomWindow PanRight st) =
          min (fullDataRange_max st - getZoomWindowSize st)
              (zoomWindowStart st + getZoomWindowSize st div 2)"
    by (rule moveZoomWindow_shift(2) [OF l r])
  show "2 * (getZoomWindowSize st div 2) = getZoomWindowSize st"
    by (rule moveZoomWindow_shift(3) [OF l r])
  show "zoomLevel (moveZoomWindow dir st) = zoomLevel st"
    by (rule moveZoomWindow_shift(4) [OF l r])
  show "zoomInvariant (moveZoomWindow dir st)"
    using i by (rule moveZoomWindow_inv)
next
  assume s: "fullDataRange_max st - fullDataRange_min st < int hours * 60 * 60 * 1000"
  then show "zoomWindowStart (setZoomLevel (ZoomHours hours) st) = fullDataRange_min st"
    by (simp add: setZoomLevel_def Let_def)
  from s show "fullDataRange_max st
        < zoomWindowStart (setZoomLevel (ZoomHours hours) st)
          + getZoomWindowSize (setZoomLevel (ZoomHours hours) st)"
    by (simp add: setZoomLevel_def getZoomWindowSize_def Let_def)
next
  assume le: "fullDataRange_min st \<le> fullDataRange_max st"
  note w = zoomWindow_within [of st "fullDataRange_min st" "fullDataRange_max st",
      OF refl refl le]
  show "fullDataRange_min st \<le> fst (zoomWindow st (fullDataRange_min st) (fullDataRange_max st))"
    using w by blast
  show "fst (zoomWindow st (fullDataRange_min st) (fullDataRange_max st))
        \<le> snd (zoomWindow st (fullDataRange_min st) (fullDataRange_max st))"
    using w by blast
  show "snd (zoomWindow st (fullDataRange_min st) (fullDataRange_max st))
        \<le> fullDataRange_max st"
    using w by blast
qed

text \<open>
  On data from 06:00 to 18:00: a zoom of 4 hours, two pans to the left and three to the
  right leave the window start at 14:00, the end of the data minus the window length. On
  data from 06:00 to 08:00 a zoom of 4 hours starts the window at 06:00, and in the state
  reached by a pan to the right from there the window that is drawn is still the full
  range.
\<close>

theorem zoom_invariant_within_span_witness:
  "zoomWindowStart
     (applyOps [SetZoom (ZoomHours 4), Pan PanLeft, Pan PanLeft,
                Pan PanRight, Pan PanRight, Pan PanRight]
        \<lparr>zoomLevel = ZoomAll, zoomWindowStart = 0,
         fullDataRange_min = 21600000, fullDataRange_max = 64800000\<rparr>) = 50400000
 \<and> zoomInvariant
     (applyOps [SetZoom (ZoomHours 4), Pan PanLeft, Pan PanLeft,
                Pan PanRight, Pan PanRight, Pan PanRight]
        \<lparr>zoomLevel = ZoomAll, zoomWindowStart = 0,
         fullDataRange_min = 21600000, fullDataRange_max = 64800000\<rparr>)
 \<and> zoomWindowStart
     (setZoomLevel (ZoomHours 4)
        \<lparr>zoomLevel = ZoomAll, zoomWindowStart = 0,
         fullDataRange_min = 21600000, fullDataRange_max = 28800000\<rparr>) = 21600000
 \<and> zoomWindow
     (moveZoomWindow PanRight
        (setZoomLevel (ZoomHours 4)
           \<lparr>zoomLevel = ZoomAll, zoomWindowStart = 0,
            fullDataRange_min = 21600000, fullDataRange_max = 28800000\<rparr>))
     21600000 28800000 = (21600000, 28800000)"
proof -
  let ?st = "\<lparr>zoomLevel = ZoomAll, zoomWindowStart = 0,
              fullDataRange_min = 21600000, fullDataRange_max = 64800000\<rparr>"
  let ?ops = "[SetZoom (ZoomHours 4), Pan PanLeft, Pan PanLeft,
               Pan PanRight, Pan PanRight, Pan PanRight]"
  let ?short = "\<lparr>zoomLevel = ZoomAll, zoomWindowStart = 0,
                 fullDataRange_min = 21600000, fullDataRange_max = 28800000\<rparr>"
  have inv: "zoomInvariant ?st" by (simp add: zoomInvariant_def)
  have fits: "\<forall>op \<in> set ?ops. fitsRange (fullDataRange_max ?st - fullDataRange_min ?st) op"
    by (simp add: fitsRange_def)
  have start: "zoomWindowStart (applyOps ?ops ?st) = 50400000"
    by (simp add: applyOps_def setZoomLevel_def moveZoomWindow_def getZoomWindowSize_def)
  have inv': "zoomInvariant (applyOps ?ops ?st)"
    using zoom_invariant_within_span [of ?st ?ops] inv fits by blast
  have short: "zoomWindowStart (setZoomLevel (ZoomHours 4) ?short) = 21600000"
    using zoom_invariant_within_span [of ?short _ _ 4] by simp
  have drawn: "zoomWindow (moveZoomWindow PanRight (setZoomLevel (ZoomHours 4) ?short))
      21600000 28800000 = (21600000, 28800000)"
    by (simp add: zoomWindow_def setZoomLevel_def moveZoomWindow_def getZoomWindowSize_def)
  from start inv' short drawn show ?thesis by blast
qed

subsection \<open>The window filter\<close>

lemma timestamps_in_range:
  assumes "x \<in> set xs"
  shows "Min (set xs) \<le> (x::int)" "x \<le> Max (set xs)"
  using assms by simp_all

lemma updateChart_Some:
  assumes "groupedGlucoseData \<noteq> []"
  shows "updateChart groupedGlucoseData otherEvents st =
     (let allTimestamps = map p_timestamp groupedGlucoseData @ map e_timestamp otherEvents;
          mn = Min (set allTimestamps);
          mx = Max (set allTimestamps);
          st' = st\<lparr>fullDataRange_min := mn, fullDataRange_max := mx\<rparr>;
          w = zoomWindow st' mn mx
      in (st',
          Some \<lparr>c_windowStart = fst w,
                c_windowEnd = snd w,
                c_windowSize = getZoomWindowSize st',
                c_minTimestamp = fst w - 2 * 60 * 1000,
                c_maxTimestamp = snd w + 2 * 60 * 1000,
                c_line = displayDataPoints (glucoseDataPoints groupedGlucoseData) (fst w) (snd w),
                c_scatter = scatterData otherEvents groupedGlucoseData (fst w) (snd w)\<rparr>))"
  using assms by (simp add: updateChart_def Let_def split: prod.splits)

text \<open>
  C7. When there is an aggregated point, the chart is drawn, and with the window that
  \<^verbatim>\<open>updateChart\<close> resolves: an aggregated point passes the filter exactly when its
  time lies in the closed interval from the window start to the window start plus the
  window length, and an event is among the markers exactly when its time lies in that
  interval. The line shows the points that pass the filter, and all points when none does.
\<close>

theorem window_filter_closed_interval:
  assumes "groupedGlucoseData \<noteq> []"
  shows "\<exists>st' ch. updateChart groupedGlucoseData otherEvents st = (st', Some ch)
     \<and> (\<forall>p \<in> set (glucoseDataPoints groupedGlucoseData).
           (p \<in> set (filteredGlucoseDataPoints (glucoseDataPoints groupedGlucoseData)
                       (c_windowStart ch) (c_windowEnd ch)))
           = (c_windowStart ch \<le> d_x p \<and> d_x p \<le> c_windowStart ch + c_windowSize ch))
     \<and> (\<forall>ev \<in> set otherEvents.
           (ev \<in> s_event ` set (c_scatter ch))
           = (c_windowStart ch \<le> e_timestamp ev
              \<and> e_timestamp ev \<le> c_windowStart ch + c_windowSize ch))
     \<and> c_line ch =
         (if filteredGlucoseDataPoints (glucoseDataPoints groupedGlucoseData)
               (c_windowStart ch) (c_windowEnd ch) = []
          then glucoseDataPoints groupedGlucoseData
          else filteredGlucoseDataPoints (glucoseDataPoints groupedGlucoseData)
                 (c_windowStart ch) (c_windowEnd ch))"
proof -
  let ?ts = "map p_timestamp groupedGlucoseData @ map e_timestamp otherEvents"
  let ?mn = "Min (set ?ts)" and ?mx = "Max (set ?ts)"
  let ?st' = "st\<lparr>fullDataRange_min := ?mn, fullDataRange_max := ?mx\<rparr>"
  let ?w = "zoomWindow ?st' ?mn ?mx"
  let ?ch = "\<lparr>c_windowStart = fst ?w, c_windowEnd = snd ?w,
              c_windowSize = getZoomWindowSize ?st',
              c_minTimestamp = fst ?w - 2 * 60 * 1000,
              c_maxTimestamp = snd ?w + 2 * 60 * 1000,
              c_line = displayDataPoints (glucoseDataPoints groupedGlucoseData) (fst ?w) (snd ?w),
              c_scatter = scatterData otherEvents groupedGlucoseData (fst ?w) (snd ?w)\<rparr>"
  have upd: "updateChart groupedGlucoseData otherEvents st = (?st', Some ?ch)"
    using updateChart_Some [OF assms, of otherEvents st] by (simp add: Let_def)
  have interval: "(fst ?w \<le> x \<and> x \<le> snd ?w) =
      (fst ?w \<le> x \<and> x \<le> fst ?w + getZoomWindowSize ?st')" if "x \<in> set ?ts" for x
    using timestamps_in_range [OF that]
    by (intro zoomWindow_closed_interval) simp_all
  have points: "(p \<in> set (filteredGlucoseDataPoints (glucoseDataPoints groupedGlucoseData)
                       (fst ?w) (snd ?w)))
           = (fst ?w \<le> d_x p \<and> d_x p \<le> fst ?w + getZoomWindowSize ?st')"
    if p: "p \<in> set (glucoseDataPoints groupedGlucoseData)" for p
  proof -
    from p have "d_x p \<in> set ?ts" by (auto simp: glucoseDataPoints_def)
    from interval [OF this] p show ?thesis
      by (simp add: filteredGlucoseDataPoints_def)
  qed
  have events: "(ev \<in> s_event ` set (scatterData otherEvents groupedGlucoseData (fst ?w) (snd ?w)))
           = (fst ?w \<le> e_timestamp ev \<and> e_timestamp ev \<le> fst ?w + getZoomWindowSize ?st')"
    if ev: "ev \<in> set otherEvents" for ev
  proof -
    from ev have "e_timestamp ev \<in> set ?ts" by auto
    from interval [OF this] ev show ?thesis
      by (auto simp: scatterData_def scatterPoint_def image_iff)
  qed
  have line: "c_line ?ch =
         (if filteredGlucoseDataPoints (glucoseDataPoints groupedGlucoseData) (fst ?w) (snd ?w) = []
          then glucoseDataPoints groupedGlucoseData
          else filteredGlucoseDataPoints (glucoseDataPoints groupedGlucoseData) (fst ?w) (snd ?w))"
    by (simp add: displayDataPoints_def Let_def)
  show ?thesis
    apply (rule exI [of _ ?st'])
    apply (rule exI [of _ ?ch])
    using upd points events line by simp
qed

text \<open>
  Points at 06:00, 12:00 and 18:00, events at 07:00 and 17:00, a zoom of 4 hours with the
  window at 14:00: the line shows the point at 18:00 and the only marker is the event
  at 17:00.
\<close>

theorem window_filter_closed_interval_witness:
  "snd (updateChart
          [\<lparr>p_value = 100, p_timestamp = 21600000\<rparr>, \<lparr>p_value = 110, p_timestamp = 43200000\<rparr>,
           \<lparr>p_value = 120, p_timestamp = 64800000\<rparr>]
          [\<lparr>e_type = ''gym'', e_desc = ''run'', e_timestamp = 25200000\<rparr>,
           \<lparr>e_type = ''food'', e_desc = ''lunch'', e_timestamp = 61200000\<rparr>]
          \<lparr>zoomLevel = ZoomHours 4, zoomWindowStart = 50400000,
           fullDataRange_min = 21600000, fullDataRange_max = 64800000\<rparr>)
   = Some \<lparr>c_windowStart = 50400000, c_windowEnd = 64800000, c_windowSize = 14400000,
           c_minTimestamp = 50280000, c_maxTimestamp = 64920000,
           c_line = [\<lparr>d_x = 64800000, d_y = 120\<rparr>],
           c_scatter =
             [\<lparr>s_x = 61200000, s_y = 120,
               s_event = \<lparr>e_type = ''food'', e_desc = ''lunch'', e_timestamp = 61200000\<rparr>\<rparr>]\<rparr>"
proof -
  let ?g = "[\<lparr>p_value = 100, p_timestamp = 21600000\<rparr>, \<lparr>p_value = 110, p_timestamp = 43200000\<rparr>,
             \<lparr>p_value = 120, p_timestamp = 64800000\<rparr>]"
  let ?es = "[\<lparr>e_type = ''gym'', e_desc = ''run'', e_timestamp = 25200000\<rparr>,
              \<lparr>e_type = ''food'', e_desc = ''lunch'', e_timestamp = 61200000\<rparr>]"
  let ?st = "\<lparr>zoomLevel = ZoomHours 4, zoomWindowStart = 50400000,
              fullDataRange_min = 21600000, fullDataRange_max = 64800000\<rparr>"
  have ne: "?g \<noteq> []" by simp
  from window_filter_closed_interval [OF ne, of ?es ?st]
  obtain st' ch where ch: "updateChart ?g ?es ?st = (st', Some ch)"
    and line: "c_line ch =
         (if filteredGlucoseDataPoints (glucoseDataPoints ?g) (c_windowStart ch) (c_windowEnd ch) = []
          then glucoseDataPoints ?g
          else filteredGlucoseDataPoints (glucoseDataPoints ?g) (c_windowStart ch) (c_windowEnd ch))"
    by blast
  have w: "zoomWindow ?st 21600000 64800000 = (50400000, 64800000)"
    by (simp add: zoomWindow_def getZoomWindowSize_def)
  have "updateChart ?g ?es ?st
      = (?st, Some \<lparr>c_windowStart = 50400000, c_windowEnd = 64800000, c_windowSize = 14400000,
           c_minTimestamp = 50280000, c_maxTimestamp = 64920000,
           c_line = displayDataPoints (glucoseDataPoints ?g) 50400000 64800000,
           c_scatter = scatterData ?es ?g 50400000 64800000\<rparr>)"
    by (simp add: updateChart_def w getZoomWindowSize_def)
  moreover have "scatterData ?es ?g 50400000 64800000 =
      [\<lparr>s_x = 61200000, s_y = 120,
        s_event = \<lparr>e_type = ''food'', e_desc = ''lunch'', e_timestamp = 61200000\<rparr>\<rparr>]"
    by (simp add: scatterData_def scatterPoint_def yValue_def closestGlucose_def)
  moreover have "filteredGlucoseDataPoints (glucoseDataPoints ?g) 50400000 64800000
      = [\<lparr>d_x = 64800000, d_y = 120\<rparr>]"
    by (simp add: filteredGlucoseDataPoints_def glucoseDataPoints_def)
  ultimately show ?thesis using ch line
    by (simp add: displayDataPoints_def)
qed


subsection \<open>The classifier\<close>

lemmas str_defs = js_def isWhiteSpace_def isWordChar_def lowerUnit_def toLowerCase_def
  trimEnd_def trim_def stripLeadingMarkers_def stripTrailingMarkers_def
  stripTrailingParen_def stripTrailingSlash_def normalizeInput_def normalizeType_def

text \<open>The catalog with its normalized forms, computed once.\<close>

lemma catalog_normalized:
  "getNormalizedTypes =
     [\<lparr>nt_original = js ''Peso'', nt_normalized = js ''peso''\<rparr>,
      \<lparr>nt_original = js ''BMI'', nt_normalized = js ''bmi''\<rparr>,
      \<lparr>nt_original = js ''Grasa'', nt_normalized = js ''grasa''\<rparr>,
      \<lparr>nt_original = js ''Peso de grasa corporal'',
        nt_normalized = js ''peso de grasa corporal''\<rparr>,
      \<lparr>nt_original = js ''Porcentaje de masa muscular esquel'' @ [233] @ js ''tica'',
        nt_normalized = js ''porcentaje de masa muscular esquel'' @ [233] @ js ''tica''\<rparr>,
      \<lparr>nt_original = js ''Peso de la masa muscular esquel'' @ [233] @ js ''tica'',
        nt_normalized = js ''peso de la masa muscular esquel'' @ [233] @ js ''tica''\<rparr>,
      \<lparr>nt_original = js ''M'' @ [250] @ js ''sculo'',
        nt_normalized = js ''m'' @ [250] @ js ''sculo''\<rparr>,
      \<lparr>nt_original = js ''Peso muscular'', nt_normalized = js ''peso muscular''\<rparr>,
      \<lparr>nt_original = js ''Grasa Visceral'', nt_normalized = js ''grasa visceral''\<rparr>,
      \<lparr>nt_original = js ''Agua (%)'', nt_normalized = js ''agua''\<rparr>,
      \<lparr>nt_original = js ''Peso del agua'', nt_normalized = js ''peso del agua''\<rparr>,
      \<lparr>nt_original = js ''Metabolismo'', nt_normalized = js ''metabolismo''\<rparr>]"
  by (simp add: getNormalizedTypes_def weightTypes_def str_defs)

lemma catalog_distinct: "distinct (map nt_normalized getNormalizedTypes)"
  unfolding catalog_normalized by (simp add: js_def)

lemma find_distinct_key:
  "distinct (map f xs) \<Longrightarrow> x \<in> set xs \<Longrightarrow> find (\<lambda>y. f y = f x) xs = Some x"
  by (induction xs) auto

lemma exact_match:
  assumes "type \<in> set weightTypes" "normalizeInput input = normalizeType type"
  shows "findMatchingType input = Some type"
proof -
  let ?nt = "\<lparr>nt_original = type, nt_normalized = normalizeType type\<rparr>"
  have "?nt \<in> set getNormalizedTypes"
    using assms(1) by (auto simp: getNormalizedTypes_def)
  then have "find (\<lambda>nt. nt_normalized nt = nt_normalized ?nt) getNormalizedTypes = Some ?nt"
    using find_distinct_key [OF catalog_distinct] by blast
  then show ?thesis using assms(2) by (simp add: findMatchingType_def)
qed

lemma match_peso: "findMatchingType (js ''peso'') = Some (js ''Peso'')"
proof -
  have "normalizeInput (js ''peso'') = js ''peso''" by (simp add: str_defs)
  then show ?thesis
    unfolding findMatchingType_def Let_def catalog_normalized by (simp add: js_def)
qed

lemma match_Peso: "findMatchingType (js ''Peso'') = Some (js ''Peso'')"
proof -
  have "normalizeInput (js ''Peso'') = js ''peso''" by (simp add: str_defs)
  then show ?thesis
    unfolding findMatchingType_def Let_def catalog_normalized by (simp add: js_def)
qed

text \<open>
  The label \<^verbatim>\<open>Peso (Kg)\<close> loses its closing bracket to the trailing-marker rule before
  the rule for a trailing parenthetical is tried, so it is normalized to \<^verbatim>\<open>peso (kg\<close>;
  the only catalog entry that overlaps it is \<^verbatim>\<open>Peso\<close>, with a score of 1170.
\<close>

lemma match_Peso_Kg: "findMatchingType (js ''Peso (Kg)'') = Some (js ''Peso'')"
proof -
  have n: "normalizeInput (js ''Peso (Kg)'') = js ''peso (kg''" by (simp add: str_defs)
  have m: "List.map_filter (matchScore (js ''peso (kg'')) getNormalizedTypes =
      [\<lparr>m_type = js ''Peso'', m_score = 1170\<rparr>]"
    unfolding catalog_normalized
    by (simp add: List.map_filter_def matchScore_def js_def Let_def)
  show ?thesis
    unfolding findMatchingType_def Let_def n m
    unfolding catalog_normalized by (simp add: js_def)
qed

lemma match_xyz: "findMatchingType (js ''xyz'') = None"
proof -
  have n: "normalizeInput (js ''xyz'') = js ''xyz''" by (simp add: str_defs)
  have m: "List.map_filter (matchScore (js ''xyz'')) getNormalizedTypes = []"
    unfolding catalog_normalized
    by (simp add: List.map_filter_def matchScore_def js_def Let_def)
  show ?thesis
    unfolding findMatchingType_def Let_def n m
    unfolding catalog_normalized by (simp add: js_def)
qed

text \<open>
  C8. A label whose normal form, with a trailing parenthetical unit stripped, equals the
  normal form of a catalog entry should be matched to that entry at once. The script does
  not compute this normal form: the replacement for trailing markers takes the closing
  bracket away before the replacement for a trailing parenthetical is tried, so the
  parenthetical stays. The label \<^verbatim>\<open>Agua (peso del agua)\<close>, which the replacement for
  a trailing parenthetical alone brings to the normal form of the entry \<^verbatim>\<open>Agua (%)\<close>,
  is normalized to \<^verbatim>\<open>agua (peso del agua\<close> and matched by its scores to the entry
  \<^verbatim>\<open>Peso del agua\<close>; the label \<^verbatim>\<open>Peso (Kg)\<close> is normalized to
  \<^verbatim>\<open>peso (kg\<close> and reaches the entry \<^verbatim>\<open>Peso\<close> by its score, not by an exact
  match. A label whose normal form as the script computes it equals that of an entry is
  matched to the entry (lemma \<open>exact_match\<close>), as \<^verbatim>\<open>peso\<close> is to \<^verbatim>\<open>Peso\<close>.
\<close>

theorem classifier_parenthetical_kept:
  "normalizeInput (js ''Agua (peso del agua)'') = js ''agua (peso del agua''
 \<and> normalizeType (js ''Agua (peso del agua)'') = normalizeType (js ''Agua (%)'')
 \<and> findMatchingType (js ''Agua (peso del agua)'') = Some (js ''Peso del agua'')
 \<and> normalizeInput (js ''Peso (Kg)'') = js ''peso (kg''
 \<and> normalizeInput (js ''Peso (Kg)'') \<noteq> normalizeType (js ''Peso'')
 \<and> List.map_filter (matchScore (normalizeInput (js ''Peso (Kg)''))) getNormalizedTypes
     = [\<lparr>m_type = js ''Peso'', m_score = 1170\<rparr>]"
proof -
  have n: "normalizeInput (js ''Agua (peso del agua)'') = js ''agua (peso del agua''"
    by (simp add: str_defs)
  have t: "normalizeType (js ''Agua (peso del agua)'') = normalizeType (js ''Agua (%)'')"
    by (simp add: str_defs)
  have m: "List.map_filter (matchScore (js ''agua (peso del agua'')) getNormalizedTypes =
      [\<lparr>m_type = js ''Peso'', m_score = 20160 / 19\<rparr>,
       \<lparr>m_type = js ''Agua (%)'', m_score = 21680 / 19\<rparr>,
       \<lparr>m_type = js ''Peso del agua'', m_score = 22770 / 19\<rparr>]"
    unfolding catalog_normalized
    by (simp add: List.map_filter_def matchScore_def js_def Let_def)
  have f: "findMatchingType (js ''Agua (peso del agua)'') = Some (js ''Peso del agua'')"
    unfolding findMatchingType_def Let_def n m
    unfolding catalog_normalized by (simp add: js_def)
  have k: "normalizeInput (js ''Peso (Kg)'') = js ''peso (kg''" by (simp add: str_defs)
  have k': "normalizeType (js ''Peso'') = js ''peso''" by (simp add: str_defs)
  have s: "List.map_filter (matchScore (js ''peso (kg'')) getNormalizedTypes =
      [\<lparr>m_type = js ''Peso'', m_score = 1170\<rparr>]"
    unfolding catalog_normalized
    by (simp add: List.map_filter_def matchScore_def js_def Let_def)
  show ?thesis unfolding n k k' using t f s by (simp add: js_def)
qed

subsection \<open>Text entry\<close>

lemma parseBlock_cases:
  "parseBlock (m, u) b =
     (case classifiedAs b of
        Some t \<Rightarrow> (m @ [\<lparr>w_type = t, w_value = blockLines b ! 1,
                          w_comment = filteredComment (blockLines b)\<rparr>], u)
      | None \<Rightarrow> if isUnmatched b then (m, u @ [trim b]) else (m, u))"
  by (simp add: parseBlock_def classifiedAs_def isUnmatched_def Let_def split: option.splits)

lemma foldl_parseBlock_unmatched:
  "snd (foldl parseBlock (m, u) bs) = u @ map trim (filter isUnmatched bs)"
proof (induction bs arbitrary: m u)
  case Nil
  show ?case by simp
next
  case (Cons b bs)
  show ?case
    by (cases "classifiedAs b"; cases "isUnmatched b")
       (simp_all add: parseBlock_cases [of m u b] Cons.IH isUnmatched_def classifiedAs_def)
qed

lemma foldl_parseBlock_matched:
  "\<exists>new. fst (foldl parseBlock (m, u) bs) = m @ new
     \<and> map (\<lambda>w. Some (w_type w)) new = map classifiedAs (filter (\<lambda>b. classifiedAs b \<noteq> None) bs)
     \<and> map w_value new = map (\<lambda>b. blockLines b ! 1) (filter (\<lambda>b. classifiedAs b \<noteq> None) bs)"
proof (induction bs arbitrary: m u)
  case Nil
  show ?case by simp
next
  case (Cons b bs)
  show ?case
  proof (cases "classifiedAs b")
    case None
    then have "\<exists>u'. parseBlock (m, u) b = (m, u')"
      by (simp add: parseBlock_cases [of m u b])
    then obtain u' where "parseBlock (m, u) b = (m, u')" ..
    then show ?thesis using Cons.IH [of m u'] None by simp
  next
    case (Some t)
    then obtain w where w: "parseBlock (m, u) b = (m @ [w], u)" "w_type w = t"
      "w_value w = blockLines b ! 1"
      by (simp add: parseBlock_cases [of m u b])
    from Cons.IH [of "m @ [w]" u] obtain new where new:
      "fst (foldl parseBlock (m @ [w], u) bs) = (m @ [w]) @ new"
      "map (\<lambda>w. Some (w_type w)) new = map classifiedAs (filter (\<lambda>b. classifiedAs b \<noteq> None) bs)"
      "map w_value new = map (\<lambda>b. blockLines b ! 1) (filter (\<lambda>b. classifiedAs b \<noteq> None) bs)"
      by blast
    show ?thesis
      by (rule exI [of _ "w # new"]) (simp add: w new Some)
  qed
qed

lemma classified_xor_unmatched:
  "length (blockLines b) \<ge> 2 \<Longrightarrow> (classifiedAs b \<noteq> None) \<noteq> isUnmatched b"
  by (simp add: classifiedAs_def isUnmatched_def)

lemma parseWeightText_fields:
  "unmatchedBlocks (parseWeightText st) =
     snd (foldl parseBlock ([], []) (splitBlocks [] (weightText st)))"
  "weightText (parseWeightText st) =
     join (js [CHR 0x0A, CHR 0x0A]) (unmatchedBlocks (parseWeightText st))"
  "weightItems (parseWeightText st) =
     weightItems st @ fst (foldl parseBlock ([], []) (splitBlocks [] (weightText st)))"
  by (simp_all add: parseWeightText_def Let_def split: prod.splits)

lemma blocks_example:
  "splitBlocks [] (js ''Peso\<newline>80\<newline>\<newline>xyz\<newline>1'') = [js ''Peso\<newline>80'', js ''xyz\<newline>1'']"
  by (simp add: js_def separatorLength_def isWhiteSpace_def)

lemma lines_example:
  "blockLines (js ''Peso\<newline>80'') = [js ''Peso'', js ''80'']"
  "blockLines (js ''xyz\<newline>1'') = [js ''xyz'', js ''1'']"
  "blockLines (js ''Peso'') = [js ''Peso'']"
  by (simp_all add: blockLines_def str_defs)

text \<open>
  C9, as stated: every block separated by blank lines yields a classified entry or is
  returned verbatim in the pending text. The text below has three blocks: the first is
  classified; the second matches nothing and is returned without its two leading spaces,
  not verbatim; the third has one line only, yields no entry and is not returned.
\<close>

theorem parse_blocks_counterexample:
  "splitBlocks [] (js ''Peso\<newline>80\<newline>\<newline>  xyz\<newline>1\<newline>\<newline>lonely'')
     = [js ''Peso\<newline>80'', js ''  xyz\<newline>1'', js ''lonely'']
 \<and> parseWeightText
       \<lparr>weightText = js ''Peso\<newline>80\<newline>\<newline>  xyz\<newline>1\<newline>\<newline>lonely'',
        weightItems = [], unmatchedBlocks = []\<rparr>
     = \<lparr>weightText = js ''xyz\<newline>1'',
        weightItems = [\<lparr>w_type = js ''Peso'', w_value = js ''80'', w_comment = []\<rparr>],
        unmatchedBlocks = [js ''xyz\<newline>1'']\<rparr>"
proof -
  have b: "splitBlocks [] (js ''Peso\<newline>80\<newline>\<newline>  xyz\<newline>1\<newline>\<newline>lonely'')
      = [js ''Peso\<newline>80'', js ''  xyz\<newline>1'', js ''lonely'']"
    by (simp add: js_def separatorLength_def isWhiteSpace_def)
  have l: "blockLines (js ''  xyz\<newline>1'') = [js ''xyz'', js ''1'']"
    "blockLines (js ''lonely'') = [js ''lonely'']"
    by (simp_all add: blockLines_def str_defs)
  have t: "trim (js ''  xyz\<newline>1'') = js ''xyz\<newline>1''" by (simp add: str_defs)
  have c: "filteredComment [js ''Peso'', js ''80''] = []"
    by (simp add: filteredComment_def str_defs)
  have p: "foldl parseBlock ([], [])
             [js ''Peso\<newline>80'', js ''  xyz\<newline>1'', js ''lonely'']
      = ([\<lparr>w_type = js ''Peso'', w_value = js ''80'', w_comment = []\<rparr>], [js ''xyz\<newline>1''])"
    by (simp add: parseBlock_def lines_example l match_Peso match_xyz t c)
  have q: "foldl parseBlock ([], [])
             (splitBlocks [] (js ''Peso\<newline>80\<newline>\<newline>  xyz\<newline>1\<newline>\<newline>lonely''))
      = ([\<lparr>w_type = js ''Peso'', w_value = js ''80'', w_comment = []\<rparr>], [js ''xyz\<newline>1''])"
    unfolding b by (rule p)
  show ?thesis using b q by (simp add: parseWeightText_def js_def)
qed

text \<open>
  C9, amended. For every submitted text, each block separated by blank lines that has at
  least two lines that are not blank either yields exactly one classified entry, of the
  type found for its first line and with its second line as value, or is returned,
  trimmed, in the pending text, and never both; the entries and the returned blocks keep
  the order of the blocks, the entries are appended to the list of classified entries,
  and the pending text is rewritten to the returned blocks joined by blank lines.
\<close>

theorem parse_round_trip:
  "(\<exists>new. weightItems (parseWeightText st) = weightItems st @ new
      \<and> map (\<lambda>w. Some (w_type w)) new
          = map classifiedAs
              (filter (\<lambda>b. classifiedAs b \<noteq> None) (splitBlocks [] (weightText st)))
      \<and> map w_value new
          = map (\<lambda>b. blockLines b ! 1)
              (filter (\<lambda>b. classifiedAs b \<noteq> None) (splitBlocks [] (weightText st))))
 \<and> unmatchedBlocks (parseWeightText st)
     = map trim (filter isUnmatched (splitBlocks [] (weightText st)))
 \<and> weightText (parseWeightText st)
     = join (js [CHR 0x0A, CHR 0x0A]) (unmatchedBlocks (parseWeightText st))
 \<and> (\<forall>b \<in> set (splitBlocks [] (weightText st)).
       length (blockLines b) \<ge> 2 \<longrightarrow> (classifiedAs b \<noteq> None) \<noteq> isUnmatched b)"
  using foldl_parseBlock_matched [of "[]" "[]" "splitBlocks [] (weightText st)"]
    classified_xor_unmatched
  by (simp add: parseWeightText_fields foldl_parseBlock_unmatched)

text \<open>
  A block matched to \<^verbatim>\<open>Peso\<close> and a block that matches nothing: one classified entry,
  and the pending text is the second block.
\<close>

theorem parse_round_trip_witness:
  "unmatchedBlocks
     (parseWeightText \<lparr>weightText = js ''Peso\<newline>80\<newline>\<newline>xyz\<newline>1'', weightItems = [],
                       unmatchedBlocks = []\<rparr>) = [js ''xyz\<newline>1'']
 \<and> weightText
     (parseWeightText \<lparr>weightText = js ''Peso\<newline>80\<newline>\<newline>xyz\<newline>1'', weightItems = [],
                       unmatchedBlocks = []\<rparr>) = js ''xyz\<newline>1''
 \<and> map w_type (weightItems
     (parseWeightText \<lparr>weightText = js ''Peso\<newline>80\<newline>\<newline>xyz\<newline>1'', weightItems = [],
                       unmatchedBlocks = []\<rparr>)) = [js ''Peso'']
 \<and> map w_value (weightItems
     (parseWeightText \<lparr>weightText = js ''Peso\<newline>80\<newline>\<newline>xyz\<newline>1'', weightItems = [],
                       unmatchedBlocks = []\<rparr>)) = [js ''80'']"
proof -
  let ?st = "\<lparr>weightText = js ''Peso\<newline>80\<newline>\<newline>xyz\<newline>1'', weightItems = [],
              unmatchedBlocks = []\<rparr>"
  have c: "classifiedAs (js ''Peso\<newline>80'') = Some (js ''Peso'')"
    "classifiedAs (js ''xyz\<newline>1'') = None"
    "isUnmatched (js ''xyz\<newline>1'')" "\<not> isUnmatched (js ''Peso\<newline>80'')"
    by (simp_all add: classifiedAs_def isUnmatched_def lines_example match_Peso match_xyz)
  have t: "trim (js ''xyz\<newline>1'') = js ''xyz\<newline>1''" by (simp add: str_defs)
  from parse_round_trip [of ?st] obtain new where new:
    "weightItems (parseWeightText ?st) = new"
    "map (\<lambda>w. Some (w_type w)) new = [Some (js ''Peso'')]"
    "map w_value new = [js ''80'']"
    "unmatchedBlocks (parseWeightText ?st) = [js ''xyz\<newline>1'']"
    "weightText (parseWeightText ?st) = join (js [CHR 0x0A, CHR 0x0A]) [js ''xyz\<newline>1'']"
    by (auto simp: blocks_example c t lines_example)
  from new(2) have "map w_type new = [js ''Peso'']" by auto
  with new show ?thesis by simp
qed

subsection \<open>The weekly grid\<close>

lemmas date_defs = dateKey_def getUTCFullYear_def getUTCMonth_def getUTCDate_def monthIndex_def
  dayOfYear_def yearOfEra_def dayOfEra_def numberToString_def padStart2_def decimal.simps
  utcDay_def

lemma dateKey_examples:
  "dateKey 4 = js ''1970-01-05''" "dateKey 5 = js ''1970-01-06''" "dateKey 6 = js ''1970-01-07''"
  "dateKey 7 = js ''1970-01-08''" "dateKey 8 = js ''1970-01-09''" "dateKey 9 = js ''1970-01-10''"
  "dateKey 10 = js ''1970-01-11''" "dateKey 19782 = js ''2024-02-29''"
  by (simp_all add: date_defs js_def)

lemma week_from_4: "map (\<lambda>i. 4 + int i) [0..<7] = [4, 5, 6, 7, 8, 9, 10]"
  by (simp add: upt_rec)

text \<open>
  C10. Each type that a record has should be mapped to 7 cells, a cell having data exactly
  when a record of the type falls on its day. The script keeps the groups in a plain
  object and misses this for two kinds of type names. A record of type
  \<^verbatim>\<open>constructor\<close> creates no group, so the type has no grid at all. A record of type
  \<^verbatim>\<open>__proto__\<close> is stored in the prototype of all objects, so the grid of another
  type shows it on its day: below, the grid of \<^verbatim>\<open>Peso\<close> has data on 5 January, the
  day of the \<^verbatim>\<open>__proto__\<close> record, although the only record of type \<^verbatim>\<open>Peso\<close>
  falls on 6 January.
\<close>

theorem weekly_grid_prototype_names:
  "groupedBodyStats 4
     [\<lparr>b_type = js ''constructor'', b_value = js ''70'', b_comment = [], b_epoch = 345600000\<rparr>]
     (js ''constructor'') = None
 \<and> groupedBodyStats 4
     [\<lparr>b_type = js ''__proto__'', b_value = js ''9'', b_comment = js ''x'', b_epoch = 345600000\<rparr>,
      \<lparr>b_type = js ''Peso'', b_value = js ''80'', b_comment = [], b_epoch = 432000000\<rparr>]
     (js ''Peso'')
   = Some [\<lparr>g_date = 4, g_value = Some (js ''9''), g_comment = js ''x'', g_hasData = True\<rparr>,
           \<lparr>g_date = 5, g_value = Some (js ''80''), g_comment = [], g_hasData = True\<rparr>,
           \<lparr>g_date = 6, g_value = None, g_comment = [], g_hasData = False\<rparr>,
           \<lparr>g_date = 7, g_value = None, g_comment = [], g_hasData = False\<rparr>,
           \<lparr>g_date = 8, g_value = None, g_comment = [], g_hasData = False\<rparr>,
           \<lparr>g_date = 9, g_value = None, g_comment = [], g_hasData = False\<rparr>,
           \<lparr>g_date = 10, g_value = None, g_comment = [], g_hasData = False\<rparr>]"
proof -
  have k: "dateKey (utcDay 345600000) = js ''1970-01-05''"
    "dateKey (utcDay 432000000) = js ''1970-01-06''"
    by (simp_all add: date_defs js_def)
  have c: "groupedBodyStats 4
     [\<lparr>b_type = js ''constructor'', b_value = js ''70'', b_comment = [], b_epoch = 345600000\<rparr>]
     (js ''constructor'') = None"
    by (simp add: groupedBodyStats_def groupedBodyStatsFrom_def addItem_def k
          objectPrototypeNames_def Let_def js_def)
  have p: "groupedBodyStats 4
     [\<lparr>b_type = js ''__proto__'', b_value = js ''9'', b_comment = js ''x'', b_epoch = 345600000\<rparr>,
      \<lparr>b_type = js ''Peso'', b_value = js ''80'', b_comment = [], b_epoch = 432000000\<rparr>]
     (js ''Peso'')
   = Some (map (gridCell [js ''1970-01-06'' \<mapsto>
                   \<lparr>b_type = js ''Peso'', b_value = js ''80'', b_comment = [], b_epoch = 432000000\<rparr>]
                 [js ''1970-01-05'' \<mapsto>
                   \<lparr>b_type = js ''__proto__'', b_value = js ''9'', b_comment = js ''x'',
                     b_epoch = 345600000\<rparr>])
             [4, 5, 6, 7, 8, 9, 10])"
    unfolding groupedBodyStats_def groupedBodyStatsFrom_def week_from_4
    by (simp add: addItem_def k objectPrototypeNames_def Let_def js_def)
  show ?thesis
    unfolding p c
    by (simp add: gridCell_def lookupItem_def dateKey_examples) (simp add: js_def)
qed

end
